theory Spec2Isabelle
  imports Complex_Main "HOL-Library.Word" "HOL-Library.Product_Lexorder"
begin

unbundle bit_operations_syntax

section \<open>Report codec (razer\_common.py)\<close>

text \<open>
  A Python \<open>bytes\<close>/\<open>bytearray\<close> object and the byte list handed back by the HID
  library are lists of 8-bit values; Python \<open>int\<close> parameters are unbounded integers.
\<close>

type_synonym byte = "8 word"

definition RAZER_STATUS_NEW :: byte where "RAZER_STATUS_NEW = 0x00"
definition RAZER_STATUS_BUSY :: byte where "RAZER_STATUS_BUSY = 0x01"
definition RAZER_STATUS_SUCCESS :: byte where "RAZER_STATUS_SUCCESS = 0x02"
definition RAZER_STATUS_FAILURE :: byte where "RAZER_STATUS_FAILURE = 0x03"
definition RAZER_STATUS_TIMEOUT :: byte where "RAZER_STATUS_TIMEOUT = 0x04"
definition RAZER_STATUS_NOT_SUPPORTED :: byte where "RAZER_STATUS_NOT_SUPPORTED = 0x05"

definition REPORT_LEN :: nat where "REPORT_LEN = 90"

text \<open>
  \<open>calculate_crc\<close>: the loop \<open>for i in range(2, 88)\<close> with its guard
  \<open>if i < len(report_data)\<close>.
\<close>

definition calculate_crc :: "byte list \<Rightarrow> byte" where
  "calculate_crc report_data =
     fold (\<lambda>i crc. if i < length report_data then crc XOR report_data ! i else crc) [2..<88] 0"

text \<open>
  The two \<open>raise ValueError\<close> statements of \<open>construct_razer_report\<close>.
\<close>

datatype error = ValueError_too_long | ValueError_not_bytes

text \<open>
  Python's \<open>bytes(arguments)\<close> on a list of integers: it raises \<open>ValueError\<close> as soon
  as one element is outside \<open>range(256)\<close>.
\<close>

definition py_bytes :: "int list \<Rightarrow> byte list option" where
  "py_bytes xs = (if list_all (\<lambda>a. 0 \<le> a \<and> a < 256) xs then Some (map word_of_int xs) else None)"

text \<open>
  \<open>report[a:b] = src\<close> on a bytearray, for a slice inside the buffer.
\<close>

definition slice_assign :: "'a list \<Rightarrow> nat \<Rightarrow> nat \<Rightarrow> 'a list \<Rightarrow> 'a list" where
  "slice_assign buf a b src = take a buf @ src @ drop b buf"

definition construct_razer_report ::
  "int \<Rightarrow> int \<Rightarrow> int \<Rightarrow> int \<Rightarrow> int list \<Rightarrow> error + byte list" where
  "construct_razer_report transaction_id command_class command_id data_size arguments =
     (if length arguments > 80 then Inl ValueError_too_long
      else case py_bytes arguments of
        None \<Rightarrow> Inl ValueError_not_bytes
      | Some arg_bytes \<Rightarrow>
          let report = replicate REPORT_LEN (0 :: byte);
              report = report[0 := 0x00];
              report = report[1 := word_of_int (transaction_id AND 0xFF)];
              report = report[2 := 0x00];
              report = report[3 := 0x00];
              report = report[4 := 0x00];
              report = report[5 := word_of_int (data_size AND 0xFF)];
              report = report[6 := word_of_int (command_class AND 0xFF)];
              report = report[7 := word_of_int (command_id AND 0xFF)];
              arg_len = min (length arguments) 80;
              report = slice_assign report 8 (8 + arg_len) (take arg_len arg_bytes);
              report = report[88 := calculate_crc report];
              report = report[89 := 0x00]
          in Inr report)"

text \<open>
  \<open>validate_response\<close>. The function logs and returns a flag; the log lines are kept as
  events so that a warning which does not change the flag stays visible in the model.
  \<open>None\<close> is Python's \<open>None\<close> response.
\<close>

datatype log_event =
    Too_short nat
  | Device_busy byte
  | Device_returned byte
  | Status_debug byte
  | Crc_mismatch byte byte

definition crc_check :: "byte list \<Rightarrow> log_event list" where
  "crc_check response =
     (if length response \<ge> 90 then
        let expected_crc = response ! 89;
            computed_crc = fold (\<lambda>i crc. crc XOR response ! i) [3..<89] (0 :: byte)
        in if computed_crc \<noteq> expected_crc then [Crc_mismatch computed_crc expected_crc] else []
      else [])"

definition validate_response_log :: "byte list option \<Rightarrow> bool \<times> log_event list" where
  "validate_response_log response =
     (case response of
        None \<Rightarrow> (False, [Too_short 0])
      | Some r \<Rightarrow>
          if r = [] \<or> length r \<le> 9 then (False, [Too_short (if r = [] then 0 else length r)])
          else
            let status = (if length r > 1 then r ! 1 else 0xFF) in
            if status = RAZER_STATUS_SUCCESS then (True, crc_check r)
            else if status = RAZER_STATUS_BUSY then (False, [Device_busy status])
            else if status \<in> {RAZER_STATUS_FAILURE, RAZER_STATUS_TIMEOUT, RAZER_STATUS_NOT_SUPPORTED}
              then (False, [Device_returned status])
            else (True, Status_debug status # crc_check r))"

definition validate_response :: "byte list option \<Rightarrow> bool" where
  "validate_response response = fst (validate_response_log response)"

section \<open>Device registry (razer\_common.py)\<close>

text \<open>
  The three dictionaries of the registry, as association lists in source order;
  \<open>map_of\<close> is the dictionary lookup (no key occurs twice).
\<close>

definition RAZER_VID :: int where "RAZER_VID = 0x1532"

definition RAZER_DEVICES :: "(int \<times> string) list" where
  "RAZER_DEVICES = [
    (0x0013, ''Razer Orochi 2011''),
    (0x0015, ''Razer Naga''),
    (0x0016, ''Razer DeathAdder 3.5G''),
    (0x001F, ''Razer Naga Epic''),
    (0x0020, ''Razer Abyssus 1800''),
    (0x0024, ''Razer Mamba 2012 (Wired)''),
    (0x0025, ''Razer Mamba 2012 (Wireless)''),
    (0x0029, ''Razer DeathAdder 3.5G Black''),
    (0x002E, ''Razer Naga 2012''),
    (0x002F, ''Razer Imperator 2012''),
    (0x0032, ''Razer Ouroboros''),
    (0x0034, ''Razer Taipan''),
    (0x0036, ''Razer Naga Hex (Red)''),
    (0x0037, ''Razer DeathAdder 2013''),
    (0x0038, ''Razer DeathAdder 1800''),
    (0x0039, ''Razer Orochi 2013''),
    (0x003E, ''Razer Naga Epic Chroma (Wired)''),
    (0x003F, ''Razer Naga Epic Chroma (Wireless)''),
    (0x0040, ''Razer Naga 2014''),
    (0x0041, ''Razer Naga Hex''),
    (0x0042, ''Razer Abyssus''),
    (0x0043, ''Razer DeathAdder Chroma''),
    (0x0044, ''Razer Mamba Chroma (Wired)''),
    (0x0045, ''Razer Mamba Chroma (Wireless)''),
    (0x0046, ''Razer Mamba Tournament Edition''),
    (0x0048, ''Razer Orochi (Wired)''),
    (0x004C, ''Razer Diamondback Chroma''),
    (0x004F, ''Razer DeathAdder 2000''),
    (0x0050, ''Razer Naga Hex V2''),
    (0x0053, ''Razer Naga Chroma''),
    (0x0054, ''Razer DeathAdder 3500''),
    (0x0059, ''Razer Lancehead (Wired)''),
    (0x005A, ''Razer Lancehead (Wireless)''),
    (0x005B, ''Razer Abyssus V2''),
    (0x005C, ''Razer DeathAdder Elite''),
    (0x005E, ''Razer Abyssus 2000''),
    (0x0060, ''Razer Lancehead Tournament Edition''),
    (0x0062, ''Razer Atheris (Receiver)''),
    (0x0064, ''Razer Basilisk''),
    (0x0065, ''Razer Basilisk Essential''),
    (0x0067, ''Razer Naga Trinity''),
    (0x0068, ''Razer Firefly Hyperflux (2018)''),
    (0x006A, ''Razer Abyssus Elite (D.Va Edition)''),
    (0x006B, ''Razer Abyssus Essential''),
    (0x006C, ''Razer Mamba Elite''),
    (0x006E, ''Razer DeathAdder Essential''),
    (0x006F, ''Razer Lancehead Wireless (Receiver)''),
    (0x0070, ''Razer Lancehead Wireless (Wired)''),
    (0x0071, ''Razer DeathAdder Essential (White Edition)''),
    (0x0072, ''Razer Mamba Wireless (Receiver)''),
    (0x0073, ''Razer Mamba Wireless (Wired)''),
    (0x0077, ''Razer Pro Click (Receiver)''),
    (0x0078, ''Razer Viper''),
    (0x007A, ''Razer Viper Ultimate (Wired)''),
    (0x007B, ''Razer Viper Ultimate (Wireless)''),
    (0x007C, ''Razer DeathAdder V2 Pro (Wired)''),
    (0x007D, ''Razer DeathAdder V2 Pro (Wireless)''),
    (0x007E, ''Razer Mouse Dock''),
    (0x0080, ''Razer Pro Click (Wired)''),
    (0x0083, ''Razer Basilisk X HyperSpeed''),
    (0x0084, ''Razer DeathAdder V2''),
    (0x0085, ''Razer Basilisk V2''),
    (0x0086, ''Razer Basilisk Ultimate''),
    (0x0088, ''Razer Basilisk Ultimate (Receiver)''),
    (0x008A, ''Razer Viper Mini''),
    (0x008C, ''Razer DeathAdder V2 Mini''),
    (0x008D, ''Razer Naga Left Handed Edition 2020''),
    (0x008F, ''Razer Naga Pro (Wired)''),
    (0x0090, ''Razer Naga Pro (Wireless)''),
    (0x0091, ''Razer Viper 8KHz''),
    (0x0094, ''Razer Orochi V2 (Receiver)''),
    (0x0095, ''Razer Orochi V2 (Bluetooth)''),
    (0x0096, ''Razer Naga X''),
    (0x0098, ''Razer DeathAdder Essential (2021)''),
    (0x0099, ''Razer Basilisk V3''),
    (0x009A, ''Razer Pro Click Mini (Receiver)''),
    (0x009C, ''Razer DeathAdder V2 X HyperSpeed''),
    (0x009E, ''Razer Viper Mini SE (Wired)''),
    (0x009F, ''Razer Viper Mini SE (Wireless)''),
    (0x00A1, ''Razer DeathAdder V2 Lite''),
    (0x00A3, ''Razer Cobra''),
    (0x00A5, ''Razer Viper V2 Pro (Wired)''),
    (0x00A6, ''Razer Viper V2 Pro (Wireless)''),
    (0x00A7, ''Razer Naga V2 Pro (Wired)''),
    (0x00A8, ''Razer Naga V2 Pro (Wireless)''),
    (0x00AA, ''Razer Basilisk V3 Pro (Wired)''),
    (0x00AB, ''Razer Basilisk V3 Pro (Wireless)''),
    (0x00AF, ''Razer Cobra Pro (Wired)''),
    (0x00B0, ''Razer Cobra Pro (Wireless)''),
    (0x00B2, ''Razer DeathAdder V3''),
    (0x00B3, ''Razer HyperPolling Wireless Dongle''),
    (0x00B4, ''Razer Naga V2 HyperSpeed (Receiver)''),
    (0x00B6, ''Razer DeathAdder V3 Pro (Wired)''),
    (0x00B7, ''Razer DeathAdder V3 Pro (Wireless)''),
    (0x00B8, ''Razer Viper V3 HyperSpeed''),
    (0x00B9, ''Razer Basilisk V3 X HyperSpeed''),
    (0x00BE, ''Razer DeathAdder V4 Pro (Wired)''),
    (0x00BF, ''Razer DeathAdder V4 Pro (Wireless)''),
    (0x00C0, ''Razer Viper V3 Pro (Wired)''),
    (0x00C1, ''Razer Viper V3 Pro (Wireless)''),
    (0x00C2, ''Razer DeathAdder V3 Pro (Wired)''),
    (0x00C3, ''Razer DeathAdder V3 Pro (Wireless)''),
    (0x00C4, ''Razer DeathAdder V3 HyperSpeed (Wired)''),
    (0x00C5, ''Razer DeathAdder V3 HyperSpeed (Wireless)''),
    (0x00C7, ''Razer Pro Click V2 Vertical Edition (Wired)''),
    (0x00C8, ''Razer Pro Click V2 Vertical Edition (Wireless)''),
    (0x00CB, ''Razer Basilisk V3 35K''),
    (0x00CC, ''Razer Basilisk V3 Pro 35K (Wired)''),
    (0x00CD, ''Razer Basilisk V3 Pro 35K (Wireless)''),
    (0x00D0, ''Razer Pro Click V2 (Wired)''),
    (0x00D1, ''Razer Pro Click V2 (Wireless)''),
    (0x00D6, ''Razer Basilisk V3 Pro 35K Phantom Green Edition (Wired)''),
    (0x00D7, ''Razer Basilisk V3 Pro 35K Phantom Green Edition (Wireless)''),
    (0x010D, ''Razer BlackWidow Ultimate 2012''),
    (0x010E, ''Razer BlackWidow Stealth Edition''),
    (0x010F, ''Razer Anansi''),
    (0x0111, ''Razer Nostromo''),
    (0x0113, ''Razer Orbweaver''),
    (0x0118, ''Razer DeathStalker/DeathStalker Essential''),
    (0x011A, ''Razer BlackWidow Ultimate 2013''),
    (0x011B, ''Razer BlackWidow (Classic)''),
    (0x011C, ''Razer BlackWidow Tournament Edition 2014''),
    (0x0201, ''Razer Tartarus''),
    (0x0202, ''Razer DeathStalker Expert''),
    (0x0203, ''Razer BlackWidow Chroma''),
    (0x0204, ''Razer DeathStalker Chroma''),
    (0x0205, ''Razer Blade Stealth''),
    (0x0207, ''Razer Orbweaver Chroma''),
    (0x0208, ''Razer Tartarus Chroma''),
    (0x0209, ''Razer BlackWidow Tournament Edition Chroma''),
    (0x020F, ''Razer Blade (QHD)''),
    (0x0210, ''Razer Blade Pro (Late 2016)''),
    (0x0211, ''Razer BlackWidow Chroma (Overwatch)''),
    (0x0214, ''Razer BlackWidow Ultimate 2016''),
    (0x0215, ''Razer Core''),
    (0x0216, ''Razer BlackWidow X Chroma''),
    (0x0217, ''Razer BlackWidow X Ultimate''),
    (0x021A, ''Razer BlackWidow X Tournament Edition Chroma''),
    (0x021E, ''Razer Ornata Chroma''),
    (0x021F, ''Razer Ornata''),
    (0x0220, ''Razer Blade Stealth (Late 2016)''),
    (0x0221, ''Razer BlackWidow Chroma V2''),
    (0x0224, ''Razer Blade (Late 2016)''),
    (0x0225, ''Razer Blade Pro (2017)''),
    (0x0226, ''Razer Huntsman Elite''),
    (0x0227, ''Razer Huntsman''),
    (0x0228, ''Razer BlackWidow Elite''),
    (0x022A, ''Razer Cynosa Chroma''),
    (0x022B, ''Razer Tartarus V2''),
    (0x022C, ''Razer Cynosa Chroma Pro''),
    (0x022D, ''Razer Blade Stealth (Mid 2017)''),
    (0x022F, ''Razer Blade Pro FullHD (2017)''),
    (0x0232, ''Razer Blade Stealth (Late 2017)''),
    (0x0233, ''Razer Blade 15 (2018)''),
    (0x0234, ''Razer Blade Pro 17 (2019)''),
    (0x0235, ''Razer BlackWidow Lite''),
    (0x0237, ''Razer BlackWidow Essential''),
    (0x0239, ''Razer Blade Stealth (2019)''),
    (0x023A, ''Razer Blade 15 (2019) Advanced''),
    (0x023B, ''Razer Blade 15 (2018) Base Model''),
    (0x023F, ''Razer Cynosa Lite''),
    (0x0240, ''Razer Blade 15 (2018) Mercury''),
    (0x0241, ''Razer BlackWidow 2019''),
    (0x0243, ''Razer Huntsman Tournament Edition''),
    (0x0244, ''Razer Tartarus Pro''),
    (0x0245, ''Razer Blade 15 (Mid 2019) Mercury''),
    (0x0246, ''Razer Blade 15 (Mid 2019) Base Model''),
    (0x024A, ''Razer Blade Stealth (Late 2019)''),
    (0x024B, ''Razer Blade Advanced (Late 2019)''),
    (0x024C, ''Razer Blade Pro (Late 2019)''),
    (0x024D, ''Razer Blade 15 Studio Edition (2019)''),
    (0x024E, ''Razer BlackWidow V3''),
    (0x0252, ''Razer Blade Stealth (Early 2020)''),
    (0x0253, ''Razer Blade 15 Advanced (2020)''),
    (0x0255, ''Razer Blade Base (Early 2020)''),
    (0x0256, ''Razer Blade Pro (Early 2020)''),
    (0x0257, ''Razer Huntsman Mini''),
    (0x0258, ''Razer BlackWidow V3 Mini HyperSpeed (Wired)''),
    (0x0259, ''Razer Blade Stealth (Late 2020)''),
    (0x025A, ''Razer BlackWidow V3 Pro Wired''),
    (0x025C, ''Razer BlackWidow V3 Pro 2.4 Ghz Wireless''),
    (0x025D, ''Razer Ornata V2''),
    (0x025E, ''Razer Cynosa V2''),
    (0x0266, ''Razer Huntsman V2 Analog''),
    (0x0268, ''Razer Blade Late 2020 Base''),
    (0x0269, ''Razer Huntsman Mini JP''),
    (0x026A, ''Razer Book (2020)''),
    (0x026B, ''Razer Huntsman V2 Tenkeyless''),
    (0x026C, ''Razer Huntsman V2''),
    (0x026D, ''Razer Blade 15 Advanced (Early 2021)''),
    (0x026E, ''Razer Blade 17 Pro (Early 2021)''),
    (0x026F, ''Razer Blade Base (Early 2021)''),
    (0x0270, ''Razer Blade 14 (2021)''),
    (0x0271, ''Razer BlackWidow V3 Mini HyperSpeed (Wireless)''),
    (0x0276, ''Razer Blade 15 Advanced (Mid 2021)''),
    (0x0279, ''Razer Blade 17 Pro (Mid 2021)''),
    (0x027A, ''Razer Blade Base (Early 2022)''),
    (0x0282, ''Razer Huntsman Mini Analog''),
    (0x0287, ''Razer BlackWidow V4''),
    (0x028A, ''Razer Blade 15 Advanced (Early 2022)''),
    (0x028B, ''Razer Blade 17 (2022)''),
    (0x028C, ''Razer Blade 14 (2022)''),
    (0x028D, ''Razer BlackWidow V4 Pro''),
    (0x028F, ''Razer Ornata V3 (Alternate)''),
    (0x0290, ''Razer DeathStalker V2 Pro (Wireless)''),
    (0x0292, ''Razer DeathStalker V2 Pro (Wired)''),
    (0x0293, ''Razer BlackWidow V4 X''),
    (0x0294, ''Razer Ornata V3 X''),
    (0x0295, ''Razer DeathStalker V2''),
    (0x0296, ''Razer DeathStalker V2 Pro TKL (Wireless)''),
    (0x0298, ''Razer DeathStalker V2 Pro TKL (Wired)''),
    (0x029D, ''Razer Blade 14 (2023)''),
    (0x029E, ''Razer Blade 15 (2023)''),
    (0x029F, ''Razer Blade 16 (2023)''),
    (0x02A0, ''Razer Blade 18 (2023)''),
    (0x02A1, ''Razer Ornata V3''),
    (0x02A2, ''Razer Ornata V3 X (Alternate)''),
    (0x02A3, ''Razer Ornata V3 Tenkeyless''),
    (0x02A5, ''Razer BlackWidow V4 75%''),
    (0x02A6, ''Razer Huntsman V3 Pro''),
    (0x02A7, ''Razer Huntsman V3 Pro TKL''),
    (0x02B6, ''Razer Blade 14 (2024)''),
    (0x02B8, ''Razer Blade 18 (2024)''),
    (0x02B9, ''Razer BlackWidow V4 Mini HyperSpeed (Wired)''),
    (0x02BA, ''Razer BlackWidow V4 Mini HyperSpeed (Wireless)''),
    (0x02C5, ''Razer Blade 14 (2025)''),
    (0x02C6, ''Razer Blade 16 (2025)''),
    (0x02C7, ''Razer Blade 18 (2025)''),
    (0x0501, ''Razer Kraken 7.1''),
    (0x0504, ''Razer Kraken 7.1 Chroma''),
    (0x0506, ''Razer Kraken 7.1 (Alternate)''),
    (0x0510, ''Razer Kraken 7.1 V2''),
    (0x0517, ''Razer Nommo Chroma (Speakers)''),
    (0x0518, ''Razer Nommo Pro (Speakers)''),
    (0x0527, ''Razer Kraken Ultimate''),
    (0x0560, ''Razer Kraken Kitty V2''),
    (0x0A24, ''Razer BlackWidow V3 TK''),
    (0x0C00, ''Razer Firefly (2013)''),
    (0x0C01, ''Razer Goliathus (2018)''),
    (0x0C02, ''Razer Goliathus Extended (2018)''),
    (0x0C04, ''Razer Firefly V2''),
    (0x0C05, ''Razer Strider Chroma''),
    (0x0C06, ''Razer Goliathus Chroma 3XL''),
    (0x0C08, ''Razer Firefly V2 Pro''),
    (0x0F07, ''Razer Chroma Mug Holder''),
    (0x0F08, ''Razer Base Station Chroma (Headphone Stand)''),
    (0x0F09, ''Razer Chroma Hardware Development Kit (HDK)''),
    (0x0F0D, ''Razer Laptop Stand Chroma''),
    (0x0F12, ''Razer Raptor 27''),
    (0x0F17, ''Razer Tomahawk ATX''),
    (0x0F19, ''Razer Kraken Kitty Edition''),
    (0x0F1A, ''Razer Core X Chroma''),
    (0x0F1D, ''Razer Mouse Bungee V3 Chroma''),
    (0x0F1F, ''Razer Chroma Addressable RGB Controller''),
    (0x0F20, ''Razer Base Station V2 Chroma''),
    (0x0F21, ''Razer Thunderbolt 4 Dock Chroma''),
    (0x0F26, ''Razer Charging Pad Chroma''),
    (0x0A00, ''Razer DeathAdder Chroma''),
    (0x0A01, ''Razer Mamba Chroma''),
    (0x0A02, ''Razer Cynosa Chroma''),
    (0x0A03, ''Razer Tartarus Chroma''),
    (0x0F2B, ''Razer Laptop Stand Chroma V2'')]"





section \<open>Transport (razer\_common.py)\<close>

text \<open>
  An interface handle of a descriptor: the dictionary \<open>{'path': ..., 'interface_number': ...}\<close>.
  \<open>path\<close> is read with \<open>iface['path']\<close>, the number with
  \<open>iface.get('interface_number', default)\<close>, so the number may be absent.
\<close>

record interface =
  path :: string
  interface_number :: "int option"

text \<open>
  The device descriptor dictionary. The keys written by \<open>scan_razer_devices\<close> are
  \<open>name\<close>, \<open>pid\<close>, \<open>type\<close>, \<open>transaction_id\<close> and \<open>interfaces\<close>; the others
  are added by \<open>send_and_receive_report\<close> and are absent (\<open>None\<close>) before its first
  call. \<open>transaction_id\<close> is read with \<open>device.get('transaction_id', 0x1F)\<close>.
\<close>

record device =
  name :: string
  pid :: int
  type :: string
  transaction_id :: "int option"
  interfaces :: "interface list"
  preferred_interface_path :: "string option"
  diag_last_ok :: "bool option"
  diag_last_command :: "string option"
  diag_last_interface :: "int option"
  diag_last_attempted_interfaces :: "int list option"
  diag_last_io_errors :: "string list option"
  diag_last_open_failed_count :: "nat option"

text \<open>
  The HID library is outside the repository. One pass through the \<open>try\<close> block of
  \<open>send_and_receive_report\<close> (\<open>hid.device()\<close>, \<open>open_path\<close>, \<open>send_feature_report\<close>,
  \<open>get_feature_report\<close>, \<open>close\<close>) either delivers what \<open>get_feature_report\<close>
  returned or raises; the exception is classified by the \<open>except\<close> clause that
  catches it and carries \<open>str(e)\<close>. The library is a parameter: a function from its
  state, the path opened and the bytes sent to the outcome and its next state. The
  \<open>time.sleep\<close> pauses are not modelled.
\<close>

datatype hid_outcome =
    Response "byte list option"
  | Raise_OSError string
  | Raise_ValueError string
  | Raise_Exception string

type_synonym 'w hid = "'w \<Rightarrow> string \<Rightarrow> byte list \<Rightarrow> hid_outcome \<times> 'w"

text \<open>
  \<open>msg.lower()\<close> and \<open>"open failed" in msg\<close> on ASCII text.
\<close>

definition py_lower :: "string \<Rightarrow> string" where
  "py_lower s = map (\<lambda>c. let n = (of_char c :: nat) in
                             if 65 \<le> n \<and> n \<le> 90 then char_of (n + 32) else c) s"

fun py_in :: "string \<Rightarrow> string \<Rightarrow> bool" where
  "py_in sub [] = (sub = [])"
| "py_in sub (c # cs) = (take (length sub) (c # cs) = sub \<or> py_in sub cs)"

text \<open>
  The local variables of \<open>send_and_receive_report\<close>, together with \<open>opened\<close>: the
  paths handed to \<open>open_path\<close>, in call order (the observable trace of the exchange).
\<close>

record locals =
  attempted_ifaces :: "int list"
  io_errors :: "string list"
  open_failed_count :: nat
  opened :: "string list"

text \<open>
  The inner loop \<open>for attempt in range(2)\<close> over the attempts still to run. A result
  \<open>Some response\<close> is the \<open>return response\<close> of the validated branch; \<open>None\<close> is
  leaving the loop by \<open>break\<close> or by exhausting the range.
\<close>

fun attempt_loop ::
  "'w hid \<Rightarrow> string \<Rightarrow> byte list \<Rightarrow> nat list \<Rightarrow> 'w \<Rightarrow> locals
     \<Rightarrow> byte list option option \<times> 'w \<times> locals" where
  "attempt_loop hid p report_with_id [] w st = (None, w, st)"
| "attempt_loop hid p report_with_id (attempt # rest) w st =
     (let st = st\<lparr>opened := opened st @ [p]\<rparr> in
      case hid w p report_with_id of
        (Response response, w') \<Rightarrow>
          if validate_response response then (Some response, w', st)
          else (None, w', st)
      | (Raise_OSError msg, w') \<Rightarrow>
          let st = st\<lparr>io_errors := io_errors st @ [msg]\<rparr>;
              st = (if py_in ''open failed'' (py_lower msg)
                    then st\<lparr>open_failed_count := open_failed_count st + 1\<rparr> else st)
          in attempt_loop hid p report_with_id rest w' st
      | (Raise_ValueError msg, w') \<Rightarrow>
          (None, w', st\<lparr>io_errors := io_errors st @ [msg]\<rparr>)
      | (Raise_Exception msg, w') \<Rightarrow>
          attempt_loop hid p report_with_id rest w' (st\<lparr>io_errors := io_errors st @ [msg]\<rparr>))"

text \<open>
  The outer loop \<open>for iface in interfaces\<close>. On a validated response it yields the
  response with the \<open>path\<close> and \<open>iface_num\<close> of the interface that delivered it.
\<close>

fun iface_loop ::
  "'w hid \<Rightarrow> byte list \<Rightarrow> interface list \<Rightarrow> 'w \<Rightarrow> locals
     \<Rightarrow> (byte list option \<times> string \<times> int) option \<times> 'w \<times> locals" where
  "iface_loop hid report_with_id [] w st = (None, w, st)"
| "iface_loop hid report_with_id (iface # rest) w st =
     (let p = path iface;
          iface_num = (case interface_number iface of None \<Rightarrow> - 1 | Some n \<Rightarrow> n);
          st = st\<lparr>attempted_ifaces := attempted_ifaces st @ [iface_num]\<rparr>
      in case attempt_loop hid p report_with_id [0, 1] w st of
           (Some response, w', st') \<Rightarrow> (Some (response, p, iface_num), w', st')
         | (None, w', st') \<Rightarrow> iface_loop hid report_with_id rest w' st')"

text \<open>
  The sort key of \<open>interfaces.sort(key=...)\<close>: a tuple, compared lexicographically.
  Python's \<open>list.sort\<close> is stable, as \<open>sort_key\<close> is.
\<close>

definition iface_sort_key :: "string option \<Rightarrow> interface \<Rightarrow> nat \<times> nat \<times> int" where
  "iface_sort_key preferred_path iface =
     (if preferred_path \<noteq> None \<and> Some (path iface) = preferred_path then 0 else 1,
      if (case interface_number iface of None \<Rightarrow> - 1 | Some n \<Rightarrow> n) = 0 then 0 else 1,
      case interface_number iface of None \<Rightarrow> 999 | Some n \<Rightarrow> n)"

text \<open>
  \<open>xs[-5:]\<close>.
\<close>

definition last5 :: "'a list \<Rightarrow> 'a list" where
  "last5 xs = drop (length xs - 5) xs"

text \<open>
  \<open>send_and_receive_report\<close>: the response (or \<open>None\<close>), the descriptor as mutated, the
  next state of the HID library and the trace of opened paths.
\<close>

definition send_and_receive_report ::
  "'w hid \<Rightarrow> 'w \<Rightarrow> device \<Rightarrow> byte list \<Rightarrow> string
     \<Rightarrow> byte list option \<times> device \<times> 'w \<times> string list" where
  "send_and_receive_report hid w selected_device report command_desc =
     (let report_with_id = 0x00 # report;
          preferred_path = preferred_interface_path selected_device;
          ifaces = sort_key (iface_sort_key preferred_path) (interfaces selected_device);
          st = \<lparr>attempted_ifaces = [], io_errors = [], open_failed_count = 0, opened = []\<rparr>
      in case iface_loop hid report_with_id ifaces w st of
           (Some (response, p, iface_num), w', st') \<Rightarrow>
             (response,
              selected_device\<lparr>preferred_interface_path := Some p,
                diag_last_ok := Some True,
                diag_last_command := Some command_desc,
                diag_last_interface := Some iface_num,
                diag_last_attempted_interfaces := Some (attempted_ifaces st'),
                diag_last_io_errors := Some (last5 (io_errors st')),
                diag_last_open_failed_count := Some (open_failed_count st')\<rparr>,
              w', opened st')
         | (None, w', st') \<Rightarrow>
             (None,
              selected_device\<lparr>diag_last_ok := Some False,
                diag_last_command := Some command_desc,
                diag_last_attempted_interfaces := Some (attempted_ifaces st'),
                diag_last_io_errors := Some (last5 (io_errors st')),
                diag_last_open_failed_count := Some (open_failed_count st')\<rparr>,
              w', opened st'))"

section \<open>Battery query API (razer\_common.py)\<close>

text \<open>
  Python's \<open>round\<close> on a number: to the nearest integer, ties to the even one. The true
  division \<open>raw / 255 * 100\<close> is taken over the rationals: \<open>raw\<close> is a byte, so the
  exact value is a multiple of \<open>1/51\<close> and lies at least \<open>1/102\<close> from every tie,
  far more than the rounding error of the two double-precision operations.
\<close>

definition py_round :: "rat \<Rightarrow> int" where
  "py_round x =
     (let f = \<lfloor>x\<rfloor>; d = x - of_int f
      in if d < 1 / 2 then f else if 1 / 2 < d then f + 1 else if even f then f else f + 1)"

text \<open>
  The loop \<open>for attempt in range(2)\<close> of \<open>get_battery_level\<close>. The last component
  collects, per call of \<open>send_and_receive_report\<close>, the paths that call opened.
\<close>

fun battery_loop ::
  "'w hid \<Rightarrow> byte list \<Rightarrow> nat list \<Rightarrow> 'w \<Rightarrow> device \<Rightarrow> string list list
     \<Rightarrow> int \<times> device \<times> 'w \<times> string list list" where
  "battery_loop hid report [] w dev exchanges = (- 1, dev, w, exchanges)"
| "battery_loop hid report (attempt # rest) w dev exchanges =
     (case send_and_receive_report hid w dev report ''get_battery_level'' of
        (response, dev', w', tr) \<Rightarrow>
          (case response of
             None \<Rightarrow> battery_loop hid report rest w' dev' (exchanges @ [tr])
           | Some r \<Rightarrow>
               if r \<noteq> [] \<and> length r > 10 then
                 let raw = r ! 10;
                     level = min (max (py_round (of_int (uint raw) / 255 * 100)) 0) 100
                 in (level, dev', w', exchanges @ [tr])
               else battery_loop hid report rest w' dev' (exchanges @ [tr])))"

definition get_battery_level ::
  "'w hid \<Rightarrow> 'w \<Rightarrow> device \<Rightarrow> error + int \<times> device \<times> 'w \<times> string list list" where
  "get_battery_level hid w dev =
     (let tid = (case transaction_id dev of None \<Rightarrow> 0x1F | Some t \<Rightarrow> t)
      in case construct_razer_report tid 0x07 0x80 0x02 [0x00, 0x00] of
           Inl e \<Rightarrow> Inl e
         | Inr report \<Rightarrow> Inr (battery_loop hid report [0, 1] w dev []))"

fun charging_loop ::
  "'w hid \<Rightarrow> byte list \<Rightarrow> nat list \<Rightarrow> 'w \<Rightarrow> device \<Rightarrow> string list list
     \<Rightarrow> bool \<times> device \<times> 'w \<times> string list list" where
  "charging_loop hid report [] w dev exchanges = (False, dev, w, exchanges)"
| "charging_loop hid report (attempt # rest) w dev exchanges =
     (case send_and_receive_report hid w dev report ''get_charging_status'' of
        (response, dev', w', tr) \<Rightarrow>
          (case response of
             None \<Rightarrow> charging_loop hid report rest w' dev' (exchanges @ [tr])
           | Some r \<Rightarrow>
               if r \<noteq> [] \<and> length r > 10 then
                 let charging = (r ! 10 > 0)
                 in (charging, dev', w', exchanges @ [tr])
               else charging_loop hid report rest w' dev' (exchanges @ [tr])))"

definition get_charging_status ::
  "'w hid \<Rightarrow> 'w \<Rightarrow> device \<Rightarrow> error + bool \<times> device \<times> 'w \<times> string list list" where
  "get_charging_status hid w dev =
     (let tid = (case transaction_id dev of None \<Rightarrow> 0x1F | Some t \<Rightarrow> t)
      in case construct_razer_report tid 0x07 0x84 0x02 [0x00, 0x00] of
           Inl e \<Rightarrow> Inl e
         | Inr report \<Rightarrow> Inr (charging_loop hid report [0, 1] w dev []))"

section \<open>Device discovery (razer\_common.py)\<close>

text \<open>
  One dictionary of \<open>hid.enumerate\<close>. Every key may be missing: \<open>product_id\<close> is read
  with \<open>d.get('product_id')\<close> and \<open>dev['product_id']\<close>, \<open>path\<close> with \<open>dev['path']\<close>
  (a \<open>KeyError\<close> when missing), the others with \<open>dev.get(key, default)\<close>.
\<close>

record hid_entry =
  product_id :: "int option"
  entry_path :: "string option"
  entry_interface_number :: "int option"
  serial_number :: "string option"
  product_string :: "string option"








text \<open>
  The condition of the list comprehension
  \<open>[d for d in all_devices if d.get('product_id') in parameterized_pids]\<close>, where
  \<open>parameterized_pids = set(RAZER_DEVICES.keys())\<close>.
\<close>

definition registered :: "hid_entry \<Rightarrow> bool" where
  "registered d =
     (let parameterized_pids = set (map fst RAZER_DEVICES)
      in case product_id d of None \<Rightarrow> False | Some p \<Rightarrow> p \<in> parameterized_pids)"


section \<open>Test fixtures (tests/helpers.py)\<close>

text \<open>
  \<open>make_razer_response\<close>: the 91-byte mock response (report ID, then the 90-byte
  report) with its checksum over indices 3..88.
\<close>

definition make_razer_response :: "byte \<Rightarrow> byte \<Rightarrow> byte \<Rightarrow> byte list" where
  "make_razer_response status battery_byte report_id =
     (let response = replicate 91 (0 :: byte);
          response = response[0 := report_id];
          response = response[1 := status];
          response = response[2 := 0x1F];
          response = response[5 := 0x00];
          response = response[6 := 0x02];
          response = response[7 := 0x07];
          response = response[8 := 0x80];
          response = response[9 := 0x00];
          response = response[10 := battery_byte];
          crc = fold (\<lambda>i crc. crc XOR response ! i) [3..<89] 0;
          response = response[89 := crc];
          response = response[90 := 0x00]
      in response)"

text \<open>
  A scripted HID library in the manner of \<open>MockHIDDevice\<close>: its state is the list of
  outcomes still to be delivered, one per attempt; once the script is used up every
  attempt fails at \<open>open_path\<close>.
\<close>

definition scripted_hid :: "hid_outcome list hid" where
  "scripted_hid w p report_with_id =
     (case w of [] \<Rightarrow> (Raise_OSError ''open failed'', []) | x # xs \<Rightarrow> (x, xs))"

text \<open>
  The \<open>mock_device\<close> fixture of tests/conftest.py.
\<close>

definition mock_device :: device where
  "mock_device =
     \<lparr>name = ''Razer DeathAdder V3 Pro (Wireless)'', pid = 0x00B7, type = ''mouse'',
      transaction_id = Some 0x1F,
      interfaces = [\<lparr>path = ''/dev/mock-hid-0'', interface_number = Some 0\<rparr>,
                    \<lparr>path = ''/dev/mock-hid-1'', interface_number = Some 1\<rparr>],
      preferred_interface_path = None, diag_last_ok = None, diag_last_command = None,
      diag_last_interface = None, diag_last_attempted_interfaces = None,
      diag_last_io_errors = None, diag_last_open_failed_count = None\<rparr>"

section \<open>Properties of the report codec\<close>

subsection \<open>Auxiliary facts\<close>

lemma and_ff_mod: "(x::int) AND 0xFF = x mod 256"
proof -
  have "(0xFF::int) = mask 8" by (simp add: mask_eq_exp_minus_1)
  then have "x AND 0xFF = take_bit 8 x" by (simp only: take_bit_eq_mask)
  then show ?thesis by (simp add: take_bit_eq_mod)
qed

lemma uint_and_ff: "uint (word_of_int (x AND 0xFF) :: byte) = x mod 256"
  by (simp add: and_ff_mod uint_word_of_int_eq take_bit_eq_mod)

lemma uint_byte_of: "0 \<le> a \<Longrightarrow> a < 256 \<Longrightarrow> uint (word_of_int a :: byte) = a"
  by (simp add: uint_word_of_int_eq take_bit_eq_mod)

lemma map_nth_upt_take_drop:
  "b \<le> length xs \<Longrightarrow> map ((!) xs) [a..<b] = take (b - a) (drop a xs)"
  by (rule nth_equalityI) auto

lemma calculate_crc_full:
  assumes "88 \<le> length xs"
  shows "calculate_crc xs = fold (XOR) (take 86 (drop 2 xs)) 0"
proof -
  have "calculate_crc xs = fold (\<lambda>i crc. crc XOR xs ! i) [2..<88] 0"
    unfolding calculate_crc_def using assms by (intro fold_cong) auto
  also have "(\<lambda>i crc. crc XOR xs ! i) = (XOR) \<circ> ((!) xs)"
    by (auto simp: fun_eq_iff xor.commute)
  also have "fold ((XOR) \<circ> ((!) xs)) [2..<88] 0 = fold (XOR) (map ((!) xs) [2..<88]) 0"
    by (simp only: fold_map)
  also have "map ((!) xs) [2..<88] = take 86 (drop 2 xs)"
    using assms map_nth_upt_take_drop [of 88 xs 2] by simp
  finally show ?thesis .
qed

lemma header_bytes:
  "take 8 ((replicate 90 (0::byte))[0 := a0, 1 := a1, 2 := a2, 3 := a3, 4 := a4, 5 := a5, 6 := a6, 7 := a7])
     = [a0, a1, a2, a3, a4, a5, a6, a7]"
  by (simp add: eval_nat_numeral)

lemma header_rest:
  "8 \<le> k \<Longrightarrow> drop k ((replicate 90 (0::byte))[0 := a0, 1 := a1, 2 := a2, 3 := a3, 4 := a4, 5 := a5, 6 := a6, 7 := a7])
     = replicate (90 - k) 0"
  by (simp add: drop_update_cancel)

lemma py_bytes_Some:
  "(\<forall>a \<in> set xs. 0 \<le> a \<and> a \<le> 255) \<Longrightarrow> py_bytes xs = Some (map word_of_int xs)"
  by (auto simp: py_bytes_def list_all_iff)

lemma py_bytes_None:
  "\<not> (\<forall>a \<in> set xs. 0 \<le> a \<and> a \<le> 255) \<Longrightarrow> py_bytes xs = None"
proof -
  have "(a < 256) = (a \<le> 255)" for a :: int by auto
  then show "\<not> (\<forall>a \<in> set xs. 0 \<le> a \<and> a \<le> 255) \<Longrightarrow> py_bytes xs = None"
    by (simp add: py_bytes_def list_all_iff)
qed

lemma construct_razer_report_explicit:
  fixes transaction_id :: int
  assumes len: "length arguments \<le> 80" and rng: "\<forall>a \<in> set arguments. 0 \<le> a \<and> a \<le> 255"
    and body_def: "body = [0, word_of_int (transaction_id AND 0xFF), 0, 0, 0,
                     word_of_int (data_size AND 0xFF), word_of_int (command_class AND 0xFF),
                     word_of_int (command_id AND 0xFF)]
                    @ map word_of_int arguments @ replicate (80 - length arguments) (0::byte)"
  shows "construct_razer_report transaction_id command_class command_id data_size arguments
           = Inr (body @ [fold (XOR) (take 86 (drop 2 body)) 0, 0])"
proof -
  have lb: "length body = 88" using len by (simp add: body_def)
  have r0: "slice_assign
          ((replicate 90 (0::byte))[0 := 0, 1 := word_of_int (transaction_id AND 0xFF), 2 := 0, 3 := 0, 4 := 0,
             5 := word_of_int (data_size AND 0xFF), 6 := word_of_int (command_class AND 0xFF),
             7 := word_of_int (command_id AND 0xFF)])
          8 (8 + length arguments) (map word_of_int arguments) = body @ [0, 0]"
  proof -
    have "replicate (82 - length arguments) (0::byte) = replicate (80 - length arguments) 0 @ [0, 0]"
    proof -
      have "82 - length arguments = (80 - length arguments) + 2" using len by simp
      then show ?thesis by (simp only: replicate_add) (simp add: eval_nat_numeral)
    qed
    moreover have "8 + length arguments \<ge> 8" "90 - (8 + length arguments) = 82 - length arguments"
      by simp_all
    ultimately show ?thesis
      unfolding slice_assign_def
      by (simp only: header_bytes header_rest body_def) simp
  qed
  have crc: "calculate_crc (body @ [0, 0]) = fold (XOR) (take 86 (drop 2 body)) 0"
    using lb by (simp add: calculate_crc_full)
  have upd: "(body @ [0, 0])[88 := c, 89 := 0] = body @ [c, 0]" for c
    using lb by (simp add: list_update_append)
  have n: "\<not> 80 < length arguments" "min (length arguments) 80 = length arguments"
    "take (length arguments) (map word_of_int arguments :: byte list) = map word_of_int arguments"
    using len by simp_all
  show ?thesis
    by (simp only: construct_razer_report_def py_bytes_Some [OF rng] REPORT_LEN_def n
        if_False option.case Let_def r0 crc upd)
qed

subsection \<open>Request report layout\<close>

text \<open>
  Claim C1. For every transaction id, command class, command id, data size and argument
  list of at most 80 elements, each in 0..255, \<open>construct_razer_report\<close> returns a
  report of exactly 90 bytes: byte 0 is 0, byte 1 the transaction id mod 256, bytes 2-4
  are 0, byte 5 the data size mod 256, byte 6 the command class mod 256, byte 7 the
  command id mod 256, bytes 8..87 the arguments followed by zero padding, byte 89 is 0,
  and byte 88 is the XOR of bytes 2 through 87 of the finished report.
\<close>

theorem construct_razer_report_layout:
  fixes transaction_id :: int
  assumes "length arguments \<le> 80" and "\<forall>a \<in> set arguments. 0 \<le> a \<and> a \<le> 255"
  shows "\<exists>report.
      construct_razer_report transaction_id command_class command_id data_size arguments = Inr report
    \<and> length report = 90
    \<and> report ! 0 = 0x00
    \<and> uint (report ! 1) = transaction_id mod 256
    \<and> report ! 2 = 0x00 \<and> report ! 3 = 0x00 \<and> report ! 4 = 0x00
    \<and> uint (report ! 5) = data_size mod 256
    \<and> uint (report ! 6) = command_class mod 256
    \<and> uint (report ! 7) = command_id mod 256
    \<and> map uint (take 80 (drop 8 report)) = arguments @ replicate (80 - length arguments) 0
    \<and> report ! 88 = fold (XOR) (take 86 (drop 2 report)) 0
    \<and> report ! 89 = 0x00"
proof -
  define body :: "byte list" where "body =
     [0, word_of_int (transaction_id AND 0xFF), 0, 0, 0,
      word_of_int (data_size AND 0xFF), word_of_int (command_class AND 0xFF),
      word_of_int (command_id AND 0xFF)]
     @ map word_of_int arguments @ replicate (80 - length arguments) (0::byte)"
  define report where "report = body @ [fold (XOR) (take 86 (drop 2 body)) 0, 0]"
  have lb: "length body = 88" using assms(1) by (simp add: body_def)
  have eq: "construct_razer_report transaction_id command_class command_id data_size arguments = Inr report"
    unfolding report_def by (rule construct_razer_report_explicit [OF assms body_def])
  have len: "length report = 90" by (simp add: report_def lb)
  have hd: "report ! 0 = 0" "report ! 2 = 0" "report ! 3 = 0" "report ! 4 = 0"
    by (simp_all add: report_def body_def)
  have h1: "uint (report ! 1) = transaction_id mod 256"
    by (simp add: report_def body_def uint_and_ff)
  have h5: "uint (report ! 5) = data_size mod 256"
    by (simp add: report_def body_def uint_and_ff)
  have h6: "uint (report ! 6) = command_class mod 256"
    by (simp add: report_def body_def uint_and_ff)
  have h7: "uint (report ! 7) = command_id mod 256"
    by (simp add: report_def body_def uint_and_ff)
  have "map uint (map word_of_int arguments :: byte list) = arguments"
    using assms(2) by (induction arguments) (simp_all add: uint_byte_of)
  then have args: "map uint (take 80 (drop 8 report)) = arguments @ replicate (80 - length arguments) 0"
    using assms(1) by (simp add: report_def body_def)
  have "take 86 (drop 2 report) = take 86 (drop 2 body)"
    using lb by (simp add: report_def)
  moreover have "report ! 88 = fold (XOR) (take 86 (drop 2 body)) 0"
    using lb by (simp add: report_def nth_append)
  ultimately have crc: "report ! 88 = fold (XOR) (take 86 (drop 2 report)) 0" by simp
  have last: "report ! 89 = 0" using lb by (simp add: report_def nth_append)
  from eq len hd h1 h5 h6 h7 args crc last show ?thesis by blast
qed

theorem construct_razer_report_layout_witness:
  "length [0, 0 :: int] \<le> 80 \<and> list_all (\<lambda>a. 0 \<le> a \<and> a \<le> 255) [0, 0 :: int]
   \<and> (\<exists>report. construct_razer_report 0x1F 0x07 0x80 0x02 [0, 0] = Inr report
        \<and> length report = 90 \<and> uint (report ! 1) = 31 \<and> uint (report ! 5) = 2
        \<and> uint (report ! 6) = 7 \<and> uint (report ! 7) = 128
        \<and> report ! 88 = fold (XOR) (take 86 (drop 2 report)) 0)"
  using construct_razer_report_layout [where arguments = "[0, 0]" and transaction_id = "0x1F"
      and command_class = "0x07" and command_id = "0x80" and data_size = "0x02"] by auto

text \<open>
  Claim C10. \<open>construct_razer_report\<close> fails with an argument error exactly when the
  argument list has more than 80 elements or holds a value outside 0..255; the header
  parameters are arbitrary integers and never make it fail.
\<close>

theorem construct_razer_report_fails_iff:
  fixes transaction_id :: int
  shows "(\<exists>e. construct_razer_report transaction_id command_class command_id data_size arguments = Inl e)
     \<longleftrightarrow> (length arguments > 80 \<or> (\<exists>a \<in> set arguments. a < 0 \<or> a > 255))"
proof (cases "length arguments > 80")
  case True
  then show ?thesis by (simp add: construct_razer_report_def)
next
  case long: False
  show ?thesis
  proof (cases "\<forall>a \<in> set arguments. 0 \<le> a \<and> a \<le> 255")
    case True
    then have "py_bytes arguments = Some (map word_of_int arguments)" by (rule py_bytes_Some)
    with long True show ?thesis
      by (auto simp: construct_razer_report_def Let_def)
  next
    case False
    then have "py_bytes arguments = None" by (rule py_bytes_None)
    moreover from False have "\<exists>a \<in> set arguments. a < 0 \<or> a > 255"
      by (meson not_le)
    ultimately show ?thesis
      using long by (simp add: construct_razer_report_def)
  qed
qed

theorem construct_razer_report_fails_iff_witness:
  "(\<exists>e. construct_razer_report (- 5) 300 1000 7 [0, 256] = Inl e)
   \<and> \<not> (\<exists>e. construct_razer_report (- 5) 300 1000 7 [0, 255] = Inl e)
   \<and> (\<exists>e. construct_razer_report 0 0 0 0 (replicate 81 0) = Inl e)"
  using construct_razer_report_fails_iff [of "- 5" 300 1000 7 "[0, 256]"]
    construct_razer_report_fails_iff [of "- 5" 300 1000 7 "[0, 255]"]
    construct_razer_report_fails_iff [of 0 0 0 0 "replicate 81 0"]
  by simp

subsection \<open>Response validation\<close>

lemmas status_defs = RAZER_STATUS_NEW_def RAZER_STATUS_BUSY_def RAZER_STATUS_SUCCESS_def
  RAZER_STATUS_FAILURE_def RAZER_STATUS_TIMEOUT_def RAZER_STATUS_NOT_SUPPORTED_def

lemma validate_response_long:
  "9 < length r \<Longrightarrow>
     validate_response (Some r) = (r ! 1 \<notin> {RAZER_STATUS_BUSY, RAZER_STATUS_FAILURE,
        RAZER_STATUS_TIMEOUT, RAZER_STATUS_NOT_SUPPORTED})"
  by (auto simp: validate_response_def validate_response_log_def Let_def status_defs)

text \<open>
  Claim C2. \<open>validate_response\<close> is true for a response longer than 9 bytes whose
  status byte (index 1, behind the report-ID prefix) is success (0x02), new/pending
  (0x00) or an unrecognised value (anything above 0x05); it is false when the status is
  busy (0x01), failure (0x03), timeout (0x04) or not-supported (0x05); and it is false
  for an absent, empty or at-most-9-byte response.
\<close>

theorem validate_response_status:
  "\<not> validate_response None
   \<and> (length r \<le> 9 \<longrightarrow> \<not> validate_response (Some r))
   \<and> (9 < length r \<and> (r ! 1 = 0x02 \<or> r ! 1 = 0x00 \<or> 0x05 < r ! 1) \<longrightarrow> validate_response (Some r))
   \<and> (9 < length r \<and> (r ! 1 = 0x01 \<or> r ! 1 = 0x03 \<or> r ! 1 = 0x04 \<or> r ! 1 = 0x05)
        \<longrightarrow> \<not> validate_response (Some r))"
proof -
  have a: "\<not> validate_response None"
    by (simp add: validate_response_def validate_response_log_def)
  have b: "length r \<le> 9 \<longrightarrow> \<not> validate_response (Some r)"
    by (simp add: validate_response_def validate_response_log_def)
  have c: "9 < length r \<and> (r ! 1 = 0x02 \<or> r ! 1 = 0x00 \<or> 0x05 < r ! 1) \<longrightarrow> validate_response (Some r)"
    by (auto simp: validate_response_long status_defs)
  have d: "9 < length r \<and> (r ! 1 = 0x01 \<or> r ! 1 = 0x03 \<or> r ! 1 = 0x04 \<or> r ! 1 = 0x05)
        \<longrightarrow> \<not> validate_response (Some r)"
    by (auto simp: validate_response_long status_defs)
  from a b c d show ?thesis by blast
qed

theorem validate_response_status_witness:
  "validate_response (Some [0, 0x02, 0, 0, 0, 0, 0, 0, 0, 0])
   \<and> validate_response (Some [0, 0x00, 0, 0, 0, 0, 0, 0, 0, 0])
   \<and> validate_response (Some [0, 0x06, 0, 0, 0, 0, 0, 0, 0, 0])
   \<and> validate_response (Some [0, 0xFF, 0, 0, 0, 0, 0, 0, 0, 0])
   \<and> \<not> validate_response (Some [0, 0x01, 0, 0, 0, 0, 0, 0, 0, 0])
   \<and> \<not> validate_response (Some [0, 0x03, 0, 0, 0, 0, 0, 0, 0, 0])
   \<and> \<not> validate_response (Some [0, 0x04, 0, 0, 0, 0, 0, 0, 0, 0])
   \<and> \<not> validate_response (Some [0, 0x05, 0, 0, 0, 0, 0, 0, 0, 0])
   \<and> \<not> validate_response (Some [0, 0x02, 0, 0, 0, 0, 0, 0, 0])
   \<and> \<not> validate_response (Some [])"
  using validate_response_status [of "[0, 0x02, 0, 0, 0, 0, 0, 0, 0, 0]"]
    validate_response_status [of "[0, 0x00, 0, 0, 0, 0, 0, 0, 0, 0]"]
    validate_response_status [of "[0, 0x06, 0, 0, 0, 0, 0, 0, 0, 0]"]
    validate_response_status [of "[0, 0xFF, 0, 0, 0, 0, 0, 0, 0, 0]"]
    validate_response_status [of "[0, 0x01, 0, 0, 0, 0, 0, 0, 0, 0]"]
    validate_response_status [of "[0, 0x03, 0, 0, 0, 0, 0, 0, 0, 0]"]
    validate_response_status [of "[0, 0x04, 0, 0, 0, 0, 0, 0, 0, 0]"]
    validate_response_status [of "[0, 0x05, 0, 0, 0, 0, 0, 0, 0, 0]"]
    validate_response_status [of "[0, 0x02, 0, 0, 0, 0, 0, 0, 0]"]
    validate_response_status [of "[]"]
  by simp

text \<open>
  Claim C3. A response of at least 90 bytes with status success validates whatever its
  trailing checksum byte (index 89) holds: overwriting that byte never turns the result
  false. The witness shows a response whose checksum matches and its corruption, which
  logs the mismatch and still validates.
\<close>

theorem validate_response_ignores_checksum:
  assumes "90 \<le> length r" and "r ! 1 = RAZER_STATUS_SUCCESS"
  shows "validate_response (Some r) \<and> validate_response (Some (r[89 := c]))"
  using assms by (simp add: validate_response_long status_defs)

theorem validate_response_ignores_checksum_witness:
  "90 \<le> length (0 # 0x02 # replicate 89 (0::byte))
   \<and> (0 # 0x02 # replicate 89 (0::byte)) ! 1 = RAZER_STATUS_SUCCESS
   \<and> validate_response_log (Some (0 # 0x02 # replicate 89 0)) = (True, [])
   \<and> validate_response_log (Some ((0 # 0x02 # replicate 89 0)[89 := 0x5A])) = (True, [Crc_mismatch 0 0x5A])
   \<and> validate_response (Some ((0 # 0x02 # replicate 89 0)[89 := 0x5A]))"
proof -
  have ok: "validate_response_log (Some (0 # 0x02 # replicate 89 0)) = (True, [])"
    by code_simp
  have bad: "validate_response_log (Some ((0 # 0x02 # replicate 89 0)[89 := 0x5A]))
               = (True, [Crc_mismatch 0 0x5A])"
    by code_simp
  have pre: "90 \<le> length (0 # 0x02 # replicate 89 (0::byte))"
    "(0 # 0x02 # replicate 89 (0::byte)) ! 1 = RAZER_STATUS_SUCCESS"
    by (simp_all add: status_defs)
  from validate_response_ignores_checksum [OF pre, of "0x5A"] ok bad pre
  show ?thesis by simp
qed

section \<open>Properties of the transport\<close>

subsection \<open>Opened paths\<close>

lemma attempt_loop_opened:
  "attempt_loop hid p rwi as w st = (res, w', st') \<Longrightarrow>
     \<exists>k \<le> length as. opened st' = opened st @ replicate k p"
proof (induction as arbitrary: w st)
  case Nil
  then show ?case by simp
next
  case (Cons a as)
  show ?case
  proof (cases "hid w p rwi")
    case (Pair out w1)
    show ?thesis
    proof (cases out)
      case (Response r)
      with Pair Cons.prems have "opened st' = opened st @ replicate 1 p"
        by (auto simp: Let_def split: if_splits)
      then show ?thesis by (intro exI [of _ 1]) simp
    next
      case (Raise_OSError msg)
      with Pair Cons.prems obtain st1 where
        "attempt_loop hid p rwi as w1 st1 = (res, w', st')" "opened st1 = opened st @ [p]"
        by (auto simp: Let_def split: if_splits)
      with Cons.IH [of w1 st1] obtain k where "k \<le> length as" "opened st' = opened st @ replicate (Suc k) p"
        by (auto simp: replicate_append_same)
      then show ?thesis by (intro exI [of _ "Suc k"]) simp
    next
      case (Raise_ValueError msg)
      with Pair Cons.prems have "opened st' = opened st @ replicate 1 p"
        by (auto simp: Let_def split: if_splits)
      then show ?thesis by (intro exI [of _ 1]) simp
    next
      case (Raise_Exception msg)
      with Pair Cons.prems obtain st1 where
        "attempt_loop hid p rwi as w1 st1 = (res, w', st')" "opened st1 = opened st @ [p]"
        by (auto simp: Let_def split: if_splits)
      with Cons.IH [of w1 st1] obtain k where "k \<le> length as" "opened st' = opened st @ replicate (Suc k) p"
        by (auto simp: replicate_append_same)
      then show ?thesis by (intro exI [of _ "Suc k"]) simp
    qed
  qed
qed

lemma count_list_replicate: "count_list (replicate k p) q = (if p = q then k else 0)"
  by (induction k) auto

lemma iface_loop_opened:
  "iface_loop hid rwi ifs w st = (res, w', st') \<Longrightarrow>
     count_list (opened st') q \<le> count_list (opened st) q + 2 * count_list (map path ifs) q"
proof (induction ifs arbitrary: w st)
  case Nil
  then show ?case by simp
next
  case (Cons iface rest)
  define st0 where "st0 = st\<lparr>attempted_ifaces := attempted_ifaces st @
      [case interface_number iface of None \<Rightarrow> - 1 | Some n \<Rightarrow> n]\<rparr>"
  obtain r1 w1 st1 where a: "attempt_loop hid (path iface) rwi [0, 1] w st0 = (r1, w1, st1)"
    by (metis prod_cases3)
  from attempt_loop_opened [OF a] obtain k where k: "k \<le> 2" "opened st1 = opened st @ replicate k (path iface)"
    by (auto simp: st0_def)
  then have c1: "count_list (opened st1) q \<le> count_list (opened st) q + 2 * count_list [path iface] q"
    by (auto simp: count_list_replicate)
  show ?case
  proof (cases r1)
    case None
    with a Cons.prems have "iface_loop hid rwi rest w1 st1 = (res, w', st')"
      by (simp add: Let_def st0_def del: attempt_loop.simps)
    from Cons.IH [OF this] c1 show ?thesis by auto
  next
    case (Some r)
    with a Cons.prems have "st' = st1" by (simp add: Let_def st0_def del: attempt_loop.simps)
    with c1 show ?thesis by auto
  qed
qed

lemma count_list_insort_key: "count_list (insort_key f x xs) q = count_list (x # xs) q"
  by (induction xs) auto

lemma count_list_sort_key: "count_list (sort_key f xs) q = count_list xs q"
  by (induction xs) (auto simp: count_list_insort_key)

lemma count_list_map_insort_key:
  "count_list (map g (insort_key f x xs)) q = count_list (map g (x # xs)) q"
  by (induction xs) auto

lemma count_list_map_sort_key: "count_list (map g (sort_key f xs)) q = count_list (map g xs) q"
  by (induction xs) (auto simp: count_list_map_insort_key)

lemma send_and_receive_report_opened:
  assumes "send_and_receive_report hid w0 dev report command_desc = (result, dev', w_end, trace)"
  shows "count_list trace q \<le> 2 * count_list (map path (interfaces dev)) q"
proof -
  define st0 where "st0 = \<lparr>attempted_ifaces = [], io_errors = [], open_failed_count = 0, opened = []\<rparr>"
  define ifs where "ifs = sort_key (iface_sort_key (preferred_interface_path dev)) (interfaces dev)"
  obtain res w1 st1 where l: "iface_loop hid (0 # report) ifs w0 st0 = (res, w1, st1)"
    by (metis prod_cases3)
  from assms l have "trace = opened st1"
    by (auto simp: send_and_receive_report_def Let_def st0_def ifs_def split: option.splits prod.splits)
  with iface_loop_opened [OF l, of q] show ?thesis
    by (simp add: st0_def ifs_def count_list_map_sort_key)
qed

lemma attempt_loop_indep:
  "attempt_loop hid p rwi as w st = (res, w', st') \<Longrightarrow>
   attempt_loop hid p rwi as w st2 = (res2, w2', st2') \<Longrightarrow>
     res2 = res \<and> w2' = w' \<and> (\<exists>tr. opened st' = opened st @ tr \<and> opened st2' = opened st2 @ tr)"
proof (induction as arbitrary: w st st2)
  case Nil
  then show ?case by simp
next
  case (Cons a as)
  obtain out w1 where h: "hid w p rwi = (out, w1)" by (metis surj_pair)
  show ?case
  proof (cases out)
    case (Response r)
    with h Cons.prems show ?thesis by (auto simp: Let_def split: if_splits)
  next
    case (Raise_OSError msg)
    define upd where "upd = (\<lambda>s :: locals.
        let s = s\<lparr>opened := opened s @ [p]\<rparr>;
            s = s\<lparr>io_errors := io_errors s @ [msg]\<rparr>
        in (if py_in ''open failed'' (py_lower msg)
            then s\<lparr>open_failed_count := open_failed_count s + 1\<rparr> else s))"
    have o: "opened (upd s) = opened s @ [p]" for s by (simp add: upd_def Let_def)
    from h Raise_OSError Cons.prems have
      a1: "attempt_loop hid p rwi as w1 (upd st) = (res, w', st')" and
      a2: "attempt_loop hid p rwi as w1 (upd st2) = (res2, w2', st2')"
      by (simp_all add: Let_def upd_def)
    from Cons.IH [OF a1 a2] show ?thesis by (auto simp: o)
  next
    case (Raise_ValueError msg)
    with h Cons.prems show ?thesis by (auto simp: Let_def)
  next
    case (Raise_Exception msg)
    define upd where "upd = (\<lambda>s :: locals. s\<lparr>opened := opened s @ [p], io_errors := io_errors s @ [msg]\<rparr>)"
    have o: "opened (upd s) = opened s @ [p]" for s by (simp add: upd_def)
    from h Raise_Exception Cons.prems have
      a1: "attempt_loop hid p rwi as w1 (upd st) = (res, w', st')" and
      a2: "attempt_loop hid p rwi as w1 (upd st2) = (res2, w2', st2')"
      by (simp_all add: Let_def upd_def)
    from Cons.IH [OF a1 a2] show ?thesis by (auto simp: o)
  qed
qed

lemma iface_loop_indep:
  "iface_loop hid rwi ifs w st = (res, w', st') \<Longrightarrow>
   iface_loop hid rwi ifs w st2 = (res2, w2', st2') \<Longrightarrow>
     res2 = res \<and> w2' = w' \<and> (\<exists>tr. opened st' = opened st @ tr \<and> opened st2' = opened st2 @ tr)"
proof (induction ifs arbitrary: w st st2 )
  case Nil
  then show ?case by simp
next
  case (Cons iface rest)
  define num where "num = (case interface_number iface of None \<Rightarrow> - 1 | Some n \<Rightarrow> n)"
  define sa where "sa = st\<lparr>attempted_ifaces := attempted_ifaces st @ [num]\<rparr>"
  define sb where "sb = st2\<lparr>attempted_ifaces := attempted_ifaces st2 @ [num]\<rparr>"
  obtain r1 w1 s1 where a: "attempt_loop hid (path iface) rwi [0, 1] w sa = (r1, w1, s1)"
    by (metis prod_cases3)
  obtain r2 v2 s2 where b: "attempt_loop hid (path iface) rwi [0, 1] w sb = (r2, v2, s2)"
    by (metis prod_cases3)
  from attempt_loop_indep [OF a b] obtain tr where
    eq: "r2 = r1" "v2 = w1" and tr: "opened s1 = opened st @ tr" "opened s2 = opened st2 @ tr"
    by (auto simp: sa_def sb_def)
  show ?case
  proof (cases r1)
    case None
    with a b eq Cons.prems have
      l1: "iface_loop hid rwi rest w1 s1 = (res, w', st')" and
      l2: "iface_loop hid rwi rest w1 s2 = (res2, w2', st2')"
      by (simp_all add: Let_def sa_def sb_def num_def del: attempt_loop.simps)
    from Cons.IH [OF l1 l2] tr show ?thesis by auto
  next
    case (Some r)
    with a b eq Cons.prems have "res = Some (r, path iface, num)" "res2 = Some (r, path iface, num)"
      "w' = w1" "w2' = w1" "st' = s1" "st2' = s2"
      by (simp_all add: Let_def sa_def sb_def num_def del: attempt_loop.simps)
    with tr show ?thesis by auto
  qed
qed

lemma sort_key_tail:
  assumes "sort_key f xs = y # ys"
  shows "sort_key f ys = ys"
proof -
  have "sorted (map f (sort_key f xs))" by (rule sorted_sort_key)
  with assms have "sorted (map f ys)" by simp
  then show ?thesis by (rule sort_key_id_if_sorted)
qed

lemma send_and_receive_report_loop:
  assumes "iface_loop hid (0 # report)
      (sort_key (iface_sort_key (preferred_interface_path dev)) (interfaces dev)) w
      \<lparr>attempted_ifaces = [], io_errors = [], open_failed_count = 0, opened = []\<rparr> = (res, w', st')"
  shows "\<exists>dev'. send_and_receive_report hid w dev report command_desc
           = ((case res of None \<Rightarrow> None | Some (r, p, n) \<Rightarrow> r), dev', w', opened st')"
  using assms by (cases res) (auto simp: send_and_receive_report_def Let_def)

lemma loop_exI: "opened X = a \<Longrightarrow> \<exists>sx. (f X :: 'r) = f sx \<and> opened sx = a"
  by blast

lemma resp_valid: "validate_response (Some (make_razer_response 0x02 0xC8 0x00))"
  by code_simp


subsection \<open>Retry policy of one exchange\<close>

text \<open>
  Claim C5. Within one \<open>send_and_receive_report\<close> exchange every interface is opened
  at most twice (the trace holds a path at most twice per interface entry with that
  path). Let \<open>iface\<close> be the first interface in the attempt order and \<open>rest\<close> the
  others, \<open>o1\<close> the outcome of the first attempt on \<open>iface\<close> and \<open>o2\<close> that of a second
  one. A validated first response is returned at once, with that single open as the
  whole trace. A first response that fails validation, and a \<open>ValueError\<close>, are followed
  by no second attempt: after the single open the exchange goes on exactly as an
  exchange over \<open>rest\<close> does from the HID state the attempt left. An I/O error (or any
  other exception) is followed by exactly one more attempt on the same path: its
  validated response is returned at once, and in every other case the exchange goes on
  over \<open>rest\<close> after those two opens. Applied again to \<open>rest\<close>, this describes every
  interface of the exchange.
\<close>

theorem exchange_retry_policy:
  fixes hid :: "'w hid" and iface :: interface
  assumes run: "send_and_receive_report hid w dev report command_desc = (result, dev', w_end, trace)"
    and head: "sort_key (iface_sort_key (preferred_interface_path dev)) (interfaces dev) = iface # rest"
    and first: "hid w (path iface) (0x00 # report) = (o1, w1)"
    and second: "hid w1 (path iface) (0x00 # report) = (o2, w2)"
    and rest1: "send_and_receive_report hid w1 (dev\<lparr>interfaces := rest\<rparr>) report command_desc
                  = (res1, dev1, end1, trace1)"
    and rest2: "send_and_receive_report hid w2 (dev\<lparr>interfaces := rest\<rparr>) report command_desc
                  = (res2, dev2, end2, trace2)"
  shows "count_list trace q \<le> 2 * count_list (map path (interfaces dev)) q
    \<and> (case o1 of
         Response r \<Rightarrow>
           (if validate_response r
            then result = r \<and> w_end = w1 \<and> trace = [path iface]
            else result = res1 \<and> w_end = end1 \<and> trace = path iface # trace1)
       | Raise_ValueError m \<Rightarrow>
           result = res1 \<and> w_end = end1 \<and> trace = path iface # trace1
       | _ \<Rightarrow>
           (case o2 of
              Response r \<Rightarrow>
                (if validate_response r
                 then result = r \<and> w_end = w2 \<and> trace = [path iface, path iface]
                 else result = res2 \<and> w_end = end2 \<and> trace = path iface # path iface # trace2)
            | _ \<Rightarrow>
                result = res2 \<and> w_end = end2 \<and> trace = path iface # path iface # trace2))"
proof -
  define st0 where "st0 = \<lparr>attempted_ifaces = [], io_errors = [], open_failed_count = 0, opened = []\<rparr>"
  define rwi where "rwi = 0x00 # report"
  define num where "num = (case interface_number iface of None \<Rightarrow> - 1 | Some n \<Rightarrow> n)"
  define f where "f = iface_sort_key (preferred_interface_path dev)"
  have A: "count_list trace q \<le> 2 * count_list (map path (interfaces dev)) q"
    by (rule send_and_receive_report_opened [OF run])
  have srt: "sort_key f (interfaces dev) = iface # rest" using head by (simp add: f_def)
  have srt_rest: "sort_key (iface_sort_key (preferred_interface_path dev)) rest = rest"
    using sort_key_tail [OF srt] by (simp add: f_def)
  \<comment> \<open>the whole run, through the loop\<close>
  obtain lres lw lst where L: "iface_loop hid rwi (iface # rest) w st0 = (lres, lw, lst)"
    by (metis prod_cases3)
  from send_and_receive_report_loop [of hid report dev w lres lw lst command_desc] L run
  have R: "result = (case lres of None \<Rightarrow> None | Some (r, p, n) \<Rightarrow> r)" "w_end = lw" "trace = opened lst"
    by (auto simp: head st0_def rwi_def)
  \<comment> \<open>a run over the remaining interfaces, from any HID state\<close>
  have REST: "rr = (case lr of None \<Rightarrow> None | Some (r, p, n) \<Rightarrow> r) \<and> ve = lv \<and> tr = opened lst'"
    if "send_and_receive_report hid v (dev\<lparr>interfaces := rest\<rparr>) report command_desc = (rr, dr, ve, tr)"
      and "iface_loop hid rwi rest v st0 = (lr, lv, lst')" for v rr dr ve tr lr lv lst'
    using send_and_receive_report_loop [of hid report "dev\<lparr>interfaces := rest\<rparr>" v lr lv lst' command_desc] that
    by (auto simp: srt_rest st0_def rwi_def)
  \<comment> \<open>moving on to the remaining interfaces after the paths \<open>ps\<close> were opened\<close>
  have MOVE: "result = rr \<and> w_end = ve \<and> trace = ps @ tr"
    if eq: "iface_loop hid rwi (iface # rest) w st0 = iface_loop hid rwi rest v sx"
      and op: "opened sx = ps"
      and rs: "send_and_receive_report hid v (dev\<lparr>interfaces := rest\<rparr>) report command_desc = (rr, dr, ve, tr)"
    for v sx ps rr dr ve tr
  proof -
    obtain lr lv lst' where l0: "iface_loop hid rwi rest v st0 = (lr, lv, lst')"
      by (metis prod_cases3)
    from REST [OF rs l0] have r0: "rr = (case lr of None \<Rightarrow> None | Some (r, p, n) \<Rightarrow> r)"
      "ve = lv" "tr = opened lst'" by auto
    from eq L have l1: "iface_loop hid rwi rest v sx = (lres, lw, lst)" by simp
    from iface_loop_indep [OF l1 l0] obtain t where
      "lr = lres" "lv = lw" "opened lst = opened sx @ t" "opened lst' = opened st0 @ t" by auto
    with R r0 op show ?thesis by (simp add: st0_def)
  qed
  have first': "hid w (path iface) rwi = (o1, w1)" and second': "hid w1 (path iface) rwi = (o2, w2)"
    using first second by (simp_all add: rwi_def)
  have HIT1: "result = r \<and> w_end = w1 \<and> trace = [path iface]"
    if "o1 = Response r" "validate_response r" for r
  proof -
    from L that have "lres = Some (r, path iface, num)" "lw = w1" "opened lst = [path iface]"
      by (auto simp: first' Let_def st0_def num_def)
    with R show ?thesis by simp
  qed
  have HIT2: "result = r \<and> w_end = w2 \<and> trace = [path iface, path iface]"
    if "(\<exists>m. o1 = Raise_OSError m) \<or> (\<exists>m. o1 = Raise_Exception m)"
      "o2 = Response r" "validate_response r" for r
  proof -
    from L that have "lres = Some (r, path iface, num)" "lw = w2" "opened lst = [path iface, path iface]"
      by (auto simp: first' second' Let_def st0_def num_def)
    with R show ?thesis by simp
  qed
  have ONE: "result = res1 \<and> w_end = end1 \<and> trace = path iface # trace1"
    if "(\<exists>r. o1 = Response r \<and> \<not> validate_response r) \<or> (\<exists>m. o1 = Raise_ValueError m)"
  proof -
    from that have "\<exists>sx. iface_loop hid rwi (iface # rest) w st0 = iface_loop hid rwi rest w1 sx
        \<and> opened sx = [path iface]"
      by (auto simp: first' Let_def st0_def intro!: loop_exI)
    then obtain sx where "iface_loop hid rwi (iface # rest) w st0 = iface_loop hid rwi rest w1 sx"
      "opened sx = [path iface]" by blast
    from MOVE [OF this rest1] show ?thesis by simp
  qed
  have TWO: "result = res2 \<and> w_end = end2 \<and> trace = path iface # path iface # trace2"
    if "(\<exists>m. o1 = Raise_OSError m) \<or> (\<exists>m. o1 = Raise_Exception m)"
      "\<not> (\<exists>r. o2 = Response r \<and> validate_response r)"
  proof -
    from that have "\<exists>sx. iface_loop hid rwi (iface # rest) w st0 = iface_loop hid rwi rest w2 sx
        \<and> opened sx = [path iface, path iface]"
      by (cases o2) (auto simp: first' second' Let_def st0_def intro!: loop_exI)
    then obtain sx where "iface_loop hid rwi (iface # rest) w st0 = iface_loop hid rwi rest w2 sx"
      "opened sx = [path iface, path iface]" by blast
    from MOVE [OF this rest2] show ?thesis by simp
  qed
  have B: "case o1 of
         Response r \<Rightarrow>
           (if validate_response r
            then result = r \<and> w_end = w1 \<and> trace = [path iface]
            else result = res1 \<and> w_end = end1 \<and> trace = path iface # trace1)
       | Raise_ValueError m \<Rightarrow>
           result = res1 \<and> w_end = end1 \<and> trace = path iface # trace1
       | _ \<Rightarrow>
           (case o2 of
              Response r \<Rightarrow>
                (if validate_response r
                 then result = r \<and> w_end = w2 \<and> trace = [path iface, path iface]
                 else result = res2 \<and> w_end = end2 \<and> trace = path iface # path iface # trace2)
            | _ \<Rightarrow>
                result = res2 \<and> w_end = end2 \<and> trace = path iface # path iface # trace2)"
  proof (cases o1)
    case (Response r)
    with HIT1 [of r] ONE show ?thesis by simp
  next
    case (Raise_ValueError m)
    with ONE show ?thesis by simp
  next
    case (Raise_OSError m)
    with HIT2 TWO show ?thesis by (cases o2) simp_all
  next
    case (Raise_Exception m)
    with HIT2 TWO show ?thesis by (cases o2) simp_all
  qed
  from A B show ?thesis by blast
qed

theorem exchange_retry_policy_witness:
  "fst (send_and_receive_report scripted_hid
          [Raise_OSError ''open failed'', Response (Some (make_razer_response 0x02 0xC8 0x00))]
          mock_device [] ''test'') = Some (make_razer_response 0x02 0xC8 0x00)
   \<and> fst (snd (snd (send_and_receive_report scripted_hid
          [Raise_OSError ''open failed'', Response (Some (make_razer_response 0x02 0xC8 0x00))]
          mock_device [] ''test''))) = []
   \<and> snd (snd (snd (send_and_receive_report scripted_hid
          [Raise_OSError ''open failed'', Response (Some (make_razer_response 0x02 0xC8 0x00))]
          mock_device [] ''test''))) = [''/dev/mock-hid-0'', ''/dev/mock-hid-0'']"
proof -
  let ?resp = "make_razer_response 0x02 0xC8 0x00"
  let ?script = "[Raise_OSError ''open failed'', Response (Some ?resp)]"
  let ?a = "\<lparr>path = ''/dev/mock-hid-0'', interface_number = Some 0\<rparr>"
  let ?b = "\<lparr>path = ''/dev/mock-hid-1'', interface_number = Some 1\<rparr>"
  let ?X = "send_and_receive_report scripted_hid ?script mock_device [] ''test''"
  let ?R1 = "send_and_receive_report scripted_hid [Response (Some ?resp)]
               (mock_device\<lparr>interfaces := [?b]\<rparr>) [] ''test''"
  let ?R2 = "send_and_receive_report scripted_hid [] (mock_device\<lparr>interfaces := [?b]\<rparr>) [] ''test''"
  have run: "?X = (fst ?X, fst (snd ?X), fst (snd (snd ?X)), snd (snd (snd ?X)))"
    by simp
  have head: "sort_key (iface_sort_key (preferred_interface_path mock_device)) (interfaces mock_device)
      = ?a # [?b]"
    by (simp add: mock_device_def iface_sort_key_def)
  have first: "scripted_hid ?script (path ?a) [0x00] = (Raise_OSError ''open failed'', [Response (Some ?resp)])"
    by (simp add: scripted_hid_def)
  have second: "scripted_hid [Response (Some ?resp)] (path ?a) [0x00] = (Response (Some ?resp), [])"
    by (simp add: scripted_hid_def)
  have rest1: "?R1 = (fst ?R1, fst (snd ?R1), fst (snd (snd ?R1)), snd (snd (snd ?R1)))"
    by simp
  have rest2: "?R2 = (fst ?R2, fst (snd ?R2), fst (snd (snd ?R2)), snd (snd (snd ?R2)))"
    by simp
  from exchange_retry_policy [OF run head first second rest1 rest2]
  show ?thesis
    by (simp add: resp_valid)
qed

subsection \<open>Interface order\<close>

text \<open>
  Claim C4. \<open>send_and_receive_report\<close> is to try the interface with the cached preferred
  path first, then interface number 0, then the others by ascending number with the
  unknown number (-1) last. The sort key uses the stored number as it is, so an
  interface stored with the unknown number -1, which is how \<open>scan_razer_devices\<close> stores
  a missing number, is tried before interface 1: with every open failing, the paths
  opened and the interface numbers recorded are those below.
\<close>

theorem unknown_interface_tried_before_numbered:
  "snd (snd (snd (send_and_receive_report scripted_hid []
       (mock_device\<lparr>interfaces := [\<lparr>path = ''/dev/hid-1'', interface_number = Some 1\<rparr>,
                                   \<lparr>path = ''/dev/hid-unknown'', interface_number = Some (- 1)\<rparr>]\<rparr>)
       [] ''test'')))
     = [''/dev/hid-unknown'', ''/dev/hid-unknown'', ''/dev/hid-1'', ''/dev/hid-1'']
   \<and> diag_last_attempted_interfaces (fst (snd (send_and_receive_report scripted_hid []
       (mock_device\<lparr>interfaces := [\<lparr>path = ''/dev/hid-1'', interface_number = Some 1\<rparr>,
                                   \<lparr>path = ''/dev/hid-unknown'', interface_number = Some (- 1)\<rparr>]\<rparr>)
       [] ''test''))) = Some [- 1, 1]"
  by code_simp


subsection \<open>Session diagnostics\<close>

lemma length_last5: "length (last5 xs) \<le> 5"
  by (simp add: last5_def)

lemma attempt_loop_valid:
  "attempt_loop hid p rwi as w st = (Some r, w', st') \<Longrightarrow> validate_response r"
proof (induction as arbitrary: w st)
  case Nil
  then show ?case by simp
next
  case (Cons a as)
  obtain out w1 where h: "hid w p rwi = (out, w1)" by (metis surj_pair)
  with Cons show ?case
    by (cases out) (auto simp: Let_def split: if_splits)
qed

lemma iface_loop_valid:
  "iface_loop hid rwi ifs w st = (Some (r, p, n), w', st') \<Longrightarrow>
     validate_response r \<and>
     (\<exists>iface \<in> set ifs. p = path iface
        \<and> n = (case interface_number iface of None \<Rightarrow> - 1 | Some k \<Rightarrow> k))"
proof (induction ifs arbitrary: w st)
  case Nil
  then show ?case by simp
next
  case (Cons iface rest)
  define st0 where "st0 = st\<lparr>attempted_ifaces := attempted_ifaces st @
      [case interface_number iface of None \<Rightarrow> - 1 | Some n \<Rightarrow> n]\<rparr>"
  obtain r1 w1 st1 where a: "attempt_loop hid (path iface) rwi [0, 1] w st0 = (r1, w1, st1)"
    by (metis prod_cases3)
  show ?case
  proof (cases r1)
    case None
    with a Cons.prems have "iface_loop hid rwi rest w1 st1 = (Some (r, p, n), w', st')"
      by (simp add: Let_def st0_def del: attempt_loop.simps)
    from Cons.IH [OF this] show ?thesis by auto
  next
    case (Some r')
    with a Cons.prems have "r' = r" "p = path iface"
      "n = (case interface_number iface of None \<Rightarrow> - 1 | Some k \<Rightarrow> k)"
      by (simp_all add: Let_def st0_def del: attempt_loop.simps)
    with a Some attempt_loop_valid [of hid "path iface" rwi "[0, 1]" w st0 r w1 st1]
    show ?thesis by simp
  qed
qed

lemma validate_response_Some: "validate_response r \<Longrightarrow> \<exists>bs. r = Some bs"
  by (cases r) (simp_all add: validate_response_def validate_response_log_def)

text \<open>
  Claim C9, as stated: every call overwrites all session diagnostic fields on both
  exits. On the exit with every interface exhausted the field for the most recent
  interface actually used is not written: it still holds 7, a number the call never
  attempted, next to the fresh failure flag and attempted-interface list.
\<close>

theorem stale_last_interface_counterexample:
  "diag_last_interface (fst (snd (send_and_receive_report scripted_hid []
       (mock_device\<lparr>diag_last_interface := Some 7\<rparr>) [] ''test''))) = Some 7
   \<and> diag_last_ok (fst (snd (send_and_receive_report scripted_hid []
       (mock_device\<lparr>diag_last_interface := Some 7\<rparr>) [] ''test''))) = Some False
   \<and> diag_last_attempted_interfaces (fst (snd (send_and_receive_report scripted_hid []
       (mock_device\<lparr>diag_last_interface := Some 7\<rparr>) [] ''test''))) = Some [0, 1]"
  by code_simp


text \<open>
  Claim C9, amended. Every call of \<open>send_and_receive_report\<close> overwrites, on both
  exits, the success flag, the last command description, the attempted-interface list,
  the trimmed I/O error list (at most 5 entries) and the open-failure count, with values
  that do not depend on what these fields held before; the most recent interface
  actually used is overwritten on the success exit and keeps its previous value on the
  exhausted exit.
\<close>

theorem exchange_overwrites_diagnostics:
  fixes hid :: "'w hid"
  assumes run: "send_and_receive_report hid w dev report command_desc = (result, dev', w', trace)"
  shows "diag_last_ok dev' = Some (result \<noteq> None)
    \<and> diag_last_command dev' = Some command_desc
    \<and> (\<exists>tried errs n. diag_last_attempted_interfaces dev' = Some tried
          \<and> diag_last_io_errors dev' = Some errs \<and> length errs \<le> 5
          \<and> diag_last_open_failed_count dev' = Some n)
    \<and> (if result = None then diag_last_interface dev' = diag_last_interface dev
        else \<exists>i. diag_last_interface dev' = Some i)
    \<and> send_and_receive_report hid w
          (dev\<lparr>diag_last_ok := old_ok, diag_last_command := old_command,
               diag_last_interface := old_interface,
               diag_last_attempted_interfaces := old_attempted,
               diag_last_io_errors := old_errors,
               diag_last_open_failed_count := old_count\<rparr>) report command_desc
        = (result,
           (if result = None then dev'\<lparr>diag_last_interface := old_interface\<rparr> else dev'),
           w', trace)"
proof -
  define st0 where "st0 = \<lparr>attempted_ifaces = [], io_errors = [], open_failed_count = 0, opened = []\<rparr>"
  define ifs where "ifs = sort_key (iface_sort_key (preferred_interface_path dev)) (interfaces dev)"
  obtain res w1 st1 where l: "iface_loop hid (0 # report) ifs w st0 = (res, w1, st1)"
    by (metis prod_cases3)
  show ?thesis
  proof (cases res)
    case None
    with run l show ?thesis
      by (auto simp: send_and_receive_report_def Let_def st0_def ifs_def length_last5)
  next
    case (Some t)
    obtain r p n where t: "t = (r, p, n)" by (metis prod_cases3)
    with Some l have "validate_response r"
      using iface_loop_valid [of hid "0 # report" ifs w st0 r p n w1 st1] by simp
    then obtain bs where "r = Some bs" using validate_response_Some by blast
    with t Some run l show ?thesis
      by (auto simp: send_and_receive_report_def Let_def st0_def ifs_def length_last5)
  qed
qed


theorem exchange_overwrites_diagnostics_witness:
  "diag_last_ok (fst (snd (send_and_receive_report scripted_hid
       [Response (Some (make_razer_response 0x02 0xC8 0x00))]
       (mock_device\<lparr>diag_last_ok := Some False, diag_last_command := Some ''earlier''\<rparr>)
       [] ''get_battery_level''))) = Some True
   \<and> diag_last_command (fst (snd (send_and_receive_report scripted_hid
       [Response (Some (make_razer_response 0x02 0xC8 0x00))]
       (mock_device\<lparr>diag_last_ok := Some False, diag_last_command := Some ''earlier''\<rparr>)
       [] ''get_battery_level''))) = Some ''get_battery_level''"
proof -
  let ?X = "send_and_receive_report scripted_hid
       [Response (Some (make_razer_response 0x02 0xC8 0x00))]
       (mock_device\<lparr>diag_last_ok := Some False, diag_last_command := Some ''earlier''\<rparr>)
       [] ''get_battery_level''"
  have run: "?X = (fst ?X, fst (snd ?X), fst (snd (snd ?X)), snd (snd (snd ?X)))"
    by simp
  have res: "fst ?X = Some (make_razer_response 0x02 0xC8 0x00)"
    by code_simp
  from exchange_overwrites_diagnostics [OF run] res show ?thesis
    by simp
qed

section \<open>Properties of the battery query API\<close>

subsection \<open>Auxiliary facts\<close>

lemma py_round_of_int_div:
  assumes "0 < d"
  shows "py_round (of_int n / of_int d) =
     (let q = n div d; r = n mod d
      in if 2 * r < d then q else if d < 2 * r then q + 1 else if even q then q else q + 1)"
proof -
  have fl: "\<lfloor>(of_int n / of_int d :: rat)\<rfloor> = n div d"
    by (simp add: floor_divide_of_int_eq)
  have "(of_int n :: rat) = of_int (n div d) * of_int d + of_int (n mod d)"
    by (metis of_int_add of_int_mult div_mult_mod_eq)
  then have fr: "(of_int n / of_int d :: rat) - of_int (n div d) = of_int (n mod d) / of_int d"
    using assms by (simp add: field_simps)
  have lt: "(of_int (n mod d) / of_int d < (1 / 2 :: rat)) = (2 * (n mod d) < d)"
  proof -
    have "(of_int (n mod d) / of_int d < (1 / 2 :: rat)) = ((of_int (2 * (n mod d)) :: rat) < of_int d)"
      using assms by (simp add: field_simps)
    then show ?thesis by (simp only: of_int_less_iff)
  qed
  have gt: "((1 / 2 :: rat) < of_int (n mod d) / of_int d) = (d < 2 * (n mod d))"
  proof -
    have "((1 / 2 :: rat) < of_int (n mod d) / of_int d) = ((of_int d :: rat) < of_int (2 * (n mod d)))"
      using assms by (simp add: field_simps)
    then show ?thesis by (simp only: of_int_less_iff)
  qed
  show ?thesis
    unfolding py_round_def Let_def fl fr lt gt by simp
qed

lemma battery_level_int:
  "py_round (of_int (uint (raw :: byte)) / 255 * 100) =
     (let q = (uint raw * 100) div 255; r = (uint raw * 100) mod 255
      in if 2 * r < 255 then q else if 255 < 2 * r then q + 1 else if even q then q else q + 1)"
proof -
  have "(of_int (uint raw) / 255 * 100 :: rat) = of_int (uint raw * 100) / of_int 255"
    by simp
  then show ?thesis
    using py_round_of_int_div [of 255 "uint raw * 100"] by simp
qed

lemma battery_table:
  "map (\<lambda>raw :: byte. min (max (py_round (of_int (uint raw) / 255 * 100)) 0) 100)
       [0, 13, 51, 64, 128, 191, 200, 230, 255]
     = [0, 5, 20, 25, 50, 75, 78, 90, 100]"
  by (simp only: list.map battery_level_int) (simp add: Let_def)

lemma battery_report_exists:
  "\<exists>report. construct_razer_report (case transaction_id dev of None \<Rightarrow> 0x1F | Some t \<Rightarrow> t)
       0x07 c 0x02 [0x00, 0x00] = Inr report"
  using construct_razer_report_explicit [where arguments = "[0, 0]", OF _ _ refl] by simp

lemma scripted_exchange_single:
  "send_and_receive_report scripted_hid [Response (Some (make_razer_response 0x02 b 0x00))]
       mock_device report desc
     = (Some (make_razer_response 0x02 b 0x00),
        mock_device\<lparr>preferred_interface_path := Some ''/dev/mock-hid-0'',
          diag_last_ok := Some True, diag_last_command := Some desc,
          diag_last_interface := Some 0, diag_last_attempted_interfaces := Some [0],
          diag_last_io_errors := Some [], diag_last_open_failed_count := Some 0\<rparr>,
        [], [''/dev/mock-hid-0''])"
proof -
  have "9 < length (make_razer_response 0x02 b 0x00)" "make_razer_response 0x02 b 0x00 ! 1 = 0x02"
    by (simp_all add: make_razer_response_def Let_def)
  then have "validate_response (Some (make_razer_response 0x02 b 0x00))"
    by (simp add: validate_response_long status_defs)
  then show ?thesis
    by (simp add: send_and_receive_report_def mock_device_def iface_sort_key_def scripted_hid_def
        Let_def last5_def)
qed

lemma iface_loop_scripted_empty:
  "\<exists>st'. iface_loop scripted_hid rwi ifs [] st = (None, [], st')"
proof (induction ifs arbitrary: st)
  case Nil
  show ?case by simp
next
  case (Cons iface rest)
  show ?case
    using Cons.IH by (simp add: scripted_hid_def Let_def)
qed

lemma exchange_scripted_empty:
  "fst (send_and_receive_report scripted_hid [] dev report desc) = None
   \<and> fst (snd (snd (send_and_receive_report scripted_hid [] dev report desc))) = []"
proof -
  obtain st' where "iface_loop scripted_hid (0 # report)
       (sort_key (iface_sort_key (preferred_interface_path dev)) (interfaces dev)) []
       \<lparr>attempted_ifaces = [], io_errors = [], open_failed_count = 0, opened = []\<rparr> = (None, [], st')"
    using iface_loop_scripted_empty by blast
  then show ?thesis by (simp add: send_and_receive_report_def Let_def)
qed

subsection \<open>Battery level scaling\<close>

text \<open>
  Claim C6. Whenever the first transport attempt of \<open>get_battery_level\<close>, or the second
  after an unusable first, yields a response longer than 10 bytes, the function returns
  \<open>min(max(round(raw / 255 * 100), 0), 100)\<close> for the byte \<open>raw\<close> at response index 10.
  The result lies in 0..100, and raw 0, 13, 51, 64, 128, 191, 200, 230, 255 give
  0, 5, 20, 25, 50, 75, 78, 90, 100.
\<close>

theorem get_battery_level_scaling:
  fixes hid :: "'w hid"
  assumes report: "construct_razer_report (case transaction_id dev of None \<Rightarrow> 0x1F | Some t \<Rightarrow> t)
                     0x07 0x80 0x02 [0x00, 0x00] = Inr report"
    and first: "send_and_receive_report hid w dev report ''get_battery_level'' = (r1, d1, w1, t1)"
    and second: "send_and_receive_report hid w1 d1 report ''get_battery_level'' = (r2, d2, w2, t2)"
  shows "(\<forall>bs. r1 = Some bs \<and> 10 < length bs \<longrightarrow>
            get_battery_level hid w dev
              = Inr (min (max (py_round (of_int (uint (bs ! 10)) / 255 * 100)) 0) 100, d1, w1, [t1]))
    \<and> (\<forall>bs. (r1 = None \<or> (\<exists>b1. r1 = Some b1 \<and> length b1 \<le> 10)) \<and> r2 = Some bs \<and> 10 < length bs \<longrightarrow>
            get_battery_level hid w dev
              = Inr (min (max (py_round (of_int (uint (bs ! 10)) / 255 * 100)) 0) 100, d2, w2, [t1, t2]))
    \<and> (\<forall>raw :: byte. 0 \<le> min (max (py_round (of_int (uint raw) / 255 * 100)) 0) 100
                     \<and> min (max (py_round (of_int (uint raw) / 255 * 100)) 0) 100 \<le> 100)
    \<and> map (\<lambda>raw :: byte. min (max (py_round (of_int (uint raw) / 255 * 100)) 0) 100)
           [0, 13, 51, 64, 128, 191, 200, 230, 255]
        = [0, 5, 20, 25, 50, 75, 78, 90, 100]"
proof -
  have a: "\<forall>bs. r1 = Some bs \<and> 10 < length bs \<longrightarrow>
            get_battery_level hid w dev
              = Inr (min (max (py_round (of_int (uint (bs ! 10)) / 255 * 100)) 0) 100, d1, w1, [t1])"
    by (auto simp: get_battery_level_def report first Let_def)
  have b: "\<forall>bs. (r1 = None \<or> (\<exists>b1. r1 = Some b1 \<and> length b1 \<le> 10)) \<and> r2 = Some bs \<and> 10 < length bs \<longrightarrow>
            get_battery_level hid w dev
              = Inr (min (max (py_round (of_int (uint (bs ! 10)) / 255 * 100)) 0) 100, d2, w2, [t1, t2])"
    by (auto simp: get_battery_level_def report first second Let_def)
  have c: "\<forall>raw :: byte. 0 \<le> min (max (py_round (of_int (uint raw) / 255 * 100)) 0) 100
                     \<and> min (max (py_round (of_int (uint raw) / 255 * 100)) 0) 100 \<le> 100"
    by simp
  from a b c battery_table show ?thesis by blast
qed

theorem get_battery_level_scaling_witness:
  "\<exists>d w' exchanges. get_battery_level scripted_hid
       [Response (Some (make_razer_response 0x02 0xC8 0x00))] mock_device = Inr (78, d, w', exchanges)"
proof -
  obtain report where rep: "construct_razer_report
      (case transaction_id mock_device of None \<Rightarrow> 0x1F | Some t \<Rightarrow> t) 0x07 0x80 0x02 [0x00, 0x00] = Inr report"
    using battery_report_exists by blast
  let ?d1 = "mock_device\<lparr>preferred_interface_path := Some ''/dev/mock-hid-0'',
          diag_last_ok := Some True, diag_last_command := Some ''get_battery_level'',
          diag_last_interface := Some 0, diag_last_attempted_interfaces := Some [0],
          diag_last_io_errors := Some [], diag_last_open_failed_count := Some 0\<rparr>"
  let ?X = "send_and_receive_report scripted_hid [] ?d1 report ''get_battery_level''"
  have second: "?X = (fst ?X, fst (snd ?X), fst (snd (snd ?X)), snd (snd (snd ?X)))"
    by simp
  have len: "10 < length (make_razer_response 0x02 0xC8 0x00)"
    and raw: "make_razer_response 0x02 0xC8 0x00 ! 10 = 0xC8"
    by (simp_all add: make_razer_response_def Let_def)
  from get_battery_level_scaling [OF rep scripted_exchange_single second] len raw
  show ?thesis by (simp add: battery_level_int)
qed

subsection \<open>Retry of the queries\<close>

text \<open>
  Claim C7. \<open>get_battery_level\<close> and \<open>get_charging_status\<close> make one exchange when the
  first yields a usable response (more than 10 bytes), and exactly one more when the
  first yields none or at most 10 bytes; a usable second response gives the result, and
  two unusable ones give -1 for the battery and \<open>False\<close> for charging. On a usable
  response the charging status is true exactly when the byte at index 10 is above 0, so
  an unreachable device and one that reports 0 both give \<open>False\<close>.
\<close>


theorem battery_queries_retry_once:
  fixes hid :: "'w hid"
  assumes report: "construct_razer_report (case transaction_id dev of None \<Rightarrow> 0x1F | Some t \<Rightarrow> t)
                     0x07 0x80 0x02 [0x00, 0x00] = Inr report"
    and first: "send_and_receive_report hid w dev report ''get_battery_level'' = (r1, d1, w1, t1)"
    and second: "send_and_receive_report hid w1 d1 report ''get_battery_level'' = (r2, d2, w2, t2)"
    and creport: "construct_razer_report (case transaction_id dev of None \<Rightarrow> 0x1F | Some t \<Rightarrow> t)
                     0x07 0x84 0x02 [0x00, 0x00] = Inr creport"
    and cfirst: "send_and_receive_report hid w dev creport ''get_charging_status'' = (c1, e1, v1, u1)"
    and csecond: "send_and_receive_report hid v1 e1 creport ''get_charging_status'' = (c2, e2, v2, u2)"
  shows "(\<forall>bs. r1 = Some bs \<and> 10 < length bs \<longrightarrow>
            (\<exists>level. get_battery_level hid w dev = Inr (level, d1, w1, [t1])))
    \<and> (\<forall>bs. (r1 = None \<or> (\<exists>b1. r1 = Some b1 \<and> length b1 \<le> 10)) \<and> r2 = Some bs \<and> 10 < length bs \<longrightarrow>
            get_battery_level hid w dev
              = Inr (min (max (py_round (of_int (uint (bs ! 10)) / 255 * 100)) 0) 100, d2, w2, [t1, t2]))
    \<and> ((r1 = None \<or> (\<exists>b1. r1 = Some b1 \<and> length b1 \<le> 10))
         \<and> (r2 = None \<or> (\<exists>b2. r2 = Some b2 \<and> length b2 \<le> 10)) \<longrightarrow>
            get_battery_level hid w dev = Inr (- 1, d2, w2, [t1, t2]))
    \<and> (\<forall>bs. c1 = Some bs \<and> 10 < length bs \<longrightarrow>
            get_charging_status hid w dev = Inr (0 < bs ! 10, e1, v1, [u1]))
    \<and> (\<forall>bs. (c1 = None \<or> (\<exists>b1. c1 = Some b1 \<and> length b1 \<le> 10)) \<and> c2 = Some bs \<and> 10 < length bs \<longrightarrow>
            get_charging_status hid w dev = Inr (0 < bs ! 10, e2, v2, [u1, u2]))
    \<and> ((c1 = None \<or> (\<exists>b1. c1 = Some b1 \<and> length b1 \<le> 10))
         \<and> (c2 = None \<or> (\<exists>b2. c2 = Some b2 \<and> length b2 \<le> 10)) \<longrightarrow>
            get_charging_status hid w dev = Inr (False, e2, v2, [u1, u2]))"
proof -
  have b1: "\<forall>bs. r1 = Some bs \<and> 10 < length bs \<longrightarrow>
            (\<exists>level. get_battery_level hid w dev = Inr (level, d1, w1, [t1]))"
    by (auto simp: get_battery_level_def report first Let_def)
  have b2: "\<forall>bs. (r1 = None \<or> (\<exists>b1. r1 = Some b1 \<and> length b1 \<le> 10)) \<and> r2 = Some bs \<and> 10 < length bs \<longrightarrow>
            get_battery_level hid w dev
              = Inr (min (max (py_round (of_int (uint (bs ! 10)) / 255 * 100)) 0) 100, d2, w2, [t1, t2])"
    by (auto simp: get_battery_level_def report first second Let_def)
  have b3: "(r1 = None \<or> (\<exists>b1. r1 = Some b1 \<and> length b1 \<le> 10))
         \<and> (r2 = None \<or> (\<exists>b2. r2 = Some b2 \<and> length b2 \<le> 10)) \<longrightarrow>
            get_battery_level hid w dev = Inr (- 1, d2, w2, [t1, t2])"
    by (auto simp: get_battery_level_def report first second Let_def)
  have c1: "\<forall>bs. c1 = Some bs \<and> 10 < length bs \<longrightarrow>
            get_charging_status hid w dev = Inr (0 < bs ! 10, e1, v1, [u1])"
    by (auto simp: get_charging_status_def creport cfirst Let_def)
  have c2: "\<forall>bs. (c1 = None \<or> (\<exists>b1. c1 = Some b1 \<and> length b1 \<le> 10)) \<and> c2 = Some bs \<and> 10 < length bs \<longrightarrow>
            get_charging_status hid w dev = Inr (0 < bs ! 10, e2, v2, [u1, u2])"
    by (auto simp: get_charging_status_def creport cfirst csecond Let_def)
  have c3: "(c1 = None \<or> (\<exists>b1. c1 = Some b1 \<and> length b1 \<le> 10))
         \<and> (c2 = None \<or> (\<exists>b2. c2 = Some b2 \<and> length b2 \<le> 10)) \<longrightarrow>
            get_charging_status hid w dev = Inr (False, e2, v2, [u1, u2])"
    by (auto simp: get_charging_status_def creport cfirst csecond Let_def)
  from b1 b2 b3 c1 c2 c3 show ?thesis by blast
qed

theorem battery_queries_retry_once_witness:
  "(\<exists>d w' exchanges. get_battery_level scripted_hid [] mock_device = Inr (- 1, d, w', exchanges)
        \<and> length exchanges = 2)
   \<and> (\<exists>d w' exchanges. get_charging_status scripted_hid [] mock_device = Inr (False, d, w', exchanges)
        \<and> length exchanges = 2)"
proof -
  obtain report where rep: "construct_razer_report
      (case transaction_id mock_device of None \<Rightarrow> 0x1F | Some t \<Rightarrow> t) 0x07 0x80 0x02 [0x00, 0x00] = Inr report"
    using battery_report_exists by blast
  obtain creport where crep: "construct_razer_report
      (case transaction_id mock_device of None \<Rightarrow> 0x1F | Some t \<Rightarrow> t) 0x07 0x84 0x02 [0x00, 0x00] = Inr creport"
    using battery_report_exists by blast
  let ?X = "send_and_receive_report scripted_hid [] mock_device report ''get_battery_level''"
  let ?Y = "send_and_receive_report scripted_hid [] (fst (snd ?X)) report ''get_battery_level''"
  let ?U = "send_and_receive_report scripted_hid [] mock_device creport ''get_charging_status''"
  let ?V = "send_and_receive_report scripted_hid [] (fst (snd ?U)) creport ''get_charging_status''"
  have x: "?X = (None, fst (snd ?X), [], snd (snd (snd ?X)))"
    using exchange_scripted_empty [of mock_device report "''get_battery_level''"]
    by (metis prod.collapse)
  have y: "?Y = (None, fst (snd ?Y), [], snd (snd (snd ?Y)))"
    using exchange_scripted_empty [of "fst (snd ?X)" report "''get_battery_level''"]
    by (metis prod.collapse)
  have u: "?U = (None, fst (snd ?U), [], snd (snd (snd ?U)))"
    using exchange_scripted_empty [of mock_device creport "''get_charging_status''"]
    by (metis prod.collapse)
  have v: "?V = (None, fst (snd ?V), [], snd (snd (snd ?V)))"
    using exchange_scripted_empty [of "fst (snd ?U)" creport "''get_charging_status''"]
    by (metis prod.collapse)
  from battery_queries_retry_once [OF rep x y crep u v]
  show ?thesis by simp
qed

section \<open>Properties of device discovery\<close>

subsection \<open>The grouping dictionary\<close>












lemma registered_has_pid: "registered e \<Longrightarrow> \<exists>p. product_id e = Some p"
  by (cases "product_id e") (simp_all add: registered_def Let_def)

subsection \<open>Result of a scan\<close>



end
